theory Spec2Isabelle
  imports Main "HOL-Library.AList"
begin

section \<open>Strings\<close>

text \<open>
  JavaScript strings are modelled as \<open>string\<close> (lists of 8-bit characters).
  \<open>String.prototype.toLowerCase\<close> is modelled on the ASCII letters, which is all the
  labels and patterns of the program contain.
\<close>

definition lower_char :: "char \<Rightarrow> char" where
  "lower_char c =
     (case map_of (zip ''ABCDEFGHIJKLMNOPQRSTUVWXYZ'' ''abcdefghijklmnopqrstuvwxyz'') c of
        Some l \<Rightarrow> l
      | None \<Rightarrow> c)"

definition toLowerCase :: "string \<Rightarrow> string" where
  "toLowerCase s = map lower_char s"

text \<open>
  White space as \<open>\s\<close> and \<open>String.prototype.trim\<close> see it, among the 8-bit
  characters: tab, line feed, vertical tab, form feed, carriage return, space and the
  no-break space.
\<close>

definition is_space :: "char \<Rightarrow> bool" where
  "is_space c =
     (c \<in> set [CHR 0x09, CHR 0x0A, CHR 0x0B, CHR 0x0C, CHR 0x0D, CHR '' '', CHR 0xA0])"

text \<open>The decimal numeral of a number, as in the name of an index property or of a file.\<close>

definition digit :: "nat \<Rightarrow> char" where
  "digit n = ''0123456789'' ! n"

fun digits :: "nat \<Rightarrow> string" where
  "digits n = (if n < 10 then [digit n] else digits (n div 10) @ [digit (n mod 10)])"

declare digits.simps [simp del]

section \<open>Regular expressions of the free-text classifier\<close>

text \<open>
  The patterns of project-planner.ts use literals, alternation, concatenation, an
  optional item (\<open>x?\<close>), \<open>\s*\<close> and \<open>\s+\<close>, all under the flag \<open>i\<close>. \<open>Lit l\<close> is
  a literal given in lower case and compared with the lower-cased text;
  \<open>Spaces n\<close> is \<open>n\<close> or more white-space characters (\<open>\s*\<close> is \<open>Spaces 0\<close>, \<open>\s+\<close>
  is \<open>Spaces 1\<close>).

  \<open>rx_after r s\<close> lists what is left of \<open>s\<close> after each way \<open>r\<close> matches a prefix
  of it, and \<open>rx_match r s\<close> is the truth value of \<open>s.match(r)\<close> for a pattern
  without anchors: a match may start anywhere in \<open>s\<close>.
\<close>

datatype regex = Lit string | Opt regex | Spaces nat | Cat "regex list" | Alt "regex list"

fun rx_after :: "regex \<Rightarrow> string \<Rightarrow> string list" where
  "rx_after (Lit l) s =
     (if length l \<le> length s \<and> toLowerCase (take (length l) s) = l
      then [drop (length l) s] else [])"
| "rx_after (Opt r) s = rx_after r s @ [s]"
| "rx_after (Spaces n) s =
     map (\<lambda>k. drop k s) (rev [n ..< Suc (length (takeWhile is_space s))])"
| "rx_after (Cat []) s = [s]"
| "rx_after (Cat (r # rs)) s = concat (map (rx_after (Cat rs)) (rx_after r s))"
| "rx_after (Alt rs) s = concat (map (\<lambda>r. rx_after r s) rs)"

definition rx_match :: "regex \<Rightarrow> string \<Rightarrow> bool" where
  "rx_match r s = list_ex (\<lambda>k. rx_after r (drop k s) \<noteq> []) [0 ..< Suc (length s)]"

section \<open>Tool-server configuration\<close>

text \<open>
  JavaScript objects used as dictionaries are association lists of their own properties
  in insertion order; an assignment \<open>o[k] = v\<close> is \<open>AList.update k v\<close> (replace in
  place, or append), a lookup \<open>o[k]\<close> of an own property is \<open>map_of\<close>. A lookup also
  finds what the object inherits from \<open>Object.prototype\<close>; where the code tests a
  lookup on an object of unknown keys, the model does (\<open>property_truthy\<close> below).
\<close>

type_synonym env_map = "(string \<times> string) list"

text \<open>
  \<open>MCPServerInfo\<close> of discovery-service.ts; \<open>info_name\<close>, \<open>info_description\<close> and
  \<open>info_env\<close> are its fields \<open>name\<close>, \<open>description\<close> and \<open>env\<close>.
\<close>

record MCPServerInfo =
  info_name :: string
  info_description :: string
  repository :: string
  installCommand :: string
  installArgs :: "string list"
  info_env :: "env_map option"

text \<open>The descriptor of one tool in \<open>mcpServers\<close>: \<open>{command, args, env?}\<close>.\<close>

record descriptor =
  command :: string
  args :: "string list"
  env :: "env_map option"

type_synonym servers = "(string \<times> descriptor) list"

text \<open>
  \<open>MCPConfig\<close>, the configuration \<open>generateMCPConfig\<close> builds. A configuration read
  from a file, which the enhancer takes as \<open>any\<close>, is a JSON value (\<open>json\<close> below).
\<close>

record MCPConfig =
  mcpServers :: "servers option"

record TechnologyStack =
  languages :: "string list"
  frameworks :: "string list"
  features :: "string list"

record ProjectStats = TechnologyStack +
  fileTypes :: "(string \<times> nat) list"
  dependencies :: "string list"

subsection \<open>The discovery collaborator (discovery-service.ts)\<close>

text \<open>
  What the two HTTP requests of \<open>discoverMCPServers\<close> can answer is an input of the
  model. \<open>RequestThrows\<close>: \<open>axios.get(repoUrl)\<close> rejects (network error, HTTP error
  status). \<open>NotArray\<close>: the body is not an array. \<open>Items\<close>: the repository listing,
  each item with the answer to the request for its README.
\<close>

datatype readme_response = ReadmeThrows | Readme nat string

record repo_item =
  item_type :: string
  item_name :: string
  item_readme :: readme_response

datatype contents_response = RequestThrows | NotArray | Items "repo_item list"

text \<open>
  The JavaScript regular-expression engine is a parameter: \<open>rx_test tech content\<close> is
  \<open>new RegExp(tech, 'i').test(content)\<close>, \<open>None\<close> when the constructor throws;
  \<open>rx_paragraph content\<close> is the first group of
  \<open>content.match(/# .+?\n\n(.+?)(\n\n|$)/s)\<close>, trimmed, when there is a match.
\<close>

record js_regexp =
  rx_test :: "string \<Rightarrow> string \<Rightarrow> bool option"
  rx_paragraph :: "string \<Rightarrow> string option"

fun relevanceScore :: "js_regexp \<Rightarrow> string \<Rightarrow> string list \<Rightarrow> nat \<Rightarrow> nat option" where
  "relevanceScore rx content [] score = Some score"
| "relevanceScore rx content (tech # techs) score =
     (case rx_test rx tech content of
        None \<Rightarrow> None
      | Some b \<Rightarrow> relevanceScore rx content techs (score + (if b then 1 else 0)))"

definition startsWith_dot :: "string \<Rightarrow> bool" where
  "startsWith_dot s = (case s of [] \<Rightarrow> False | c # _ \<Rightarrow> c = CHR ''.'')"

definition server_info :: "string \<Rightarrow> string \<Rightarrow> MCPServerInfo" where
  "server_info n d =
     \<lparr> info_name = n, info_description = d,
       repository = ''https://github.com/modelcontextprotocol/servers/tree/main/'' @ n,
       installCommand = ''npx'',
       installArgs = [''-y'', ''@modelcontextprotocol/server-'' @ n],
       info_env = (if n = ''brave-search''
                    then Some [(''BRAVE_API_KEY'', ''YOUR_API_KEY_HERE'')] else None) \<rparr>"

text \<open>
  The body of the callback mapped over the server directories. Every exception in it
  (the README request rejecting, a status of 500 or more, the \<open>RegExp\<close> constructor
  throwing) is caught there and leaves \<open>servers\<close> as it is. The assignment
  \<open>servers[dir.name] = {...}\<close> creates or replaces the own property \<open>dir.name\<close>, except
  under the name \<open>__proto__\<close>: there it calls the setter \<open>servers\<close> inherits, which
  changes the prototype of \<open>servers\<close> and creates no property.
\<close>

definition process_dir ::
  "js_regexp \<Rightarrow> string list \<Rightarrow> repo_item \<Rightarrow> (string \<times> MCPServerInfo) list
     \<Rightarrow> (string \<times> MCPServerInfo) list" where
  "process_dir rx technologies dir servers =
     (case item_readme dir of
        ReadmeThrows \<Rightarrow> servers
      | Readme status content \<Rightarrow>
          if status \<ge> 500 then servers
          else
            (case (if status = 200
                   then (case relevanceScore rx content technologies 0 of
                           None \<Rightarrow> None
                         | Some score \<Rightarrow>
                             Some (case rx_paragraph rx content of
                                     Some p \<Rightarrow> p
                                   | None \<Rightarrow> ''MCP server for '' @ item_name dir, score))
                   else Some (''MCP server for '' @ item_name dir, 0)) of
               None \<Rightarrow> servers
             | Some (descr, score) \<Rightarrow>
                 if score > 0
                    \<or> item_name dir \<in> set [''brave-search'', ''sequential-thinking'']
                    \<or> length technologies = 0
                 then (if item_name dir = ''__proto__'' then servers
                       else AList.update (item_name dir)
                              (server_info (item_name dir) descr) servers)
                 else servers))"

definition fallback_servers :: "(string \<times> MCPServerInfo) list" where
  "fallback_servers =
     [(''brave-search'',
       \<lparr> info_name = ''brave-search'',
         info_description = ''Enables web searches using the Brave Search API'',
         repository = ''https://github.com/modelcontextprotocol/servers/tree/main/brave-search'',
         installCommand = ''npx'',
         installArgs = [''-y'', ''@modelcontextprotocol/server-brave-search''],
         info_env = Some [(''BRAVE_API_KEY'', ''YOUR_API_KEY_HERE'')] \<rparr>),
      (''sequential-thinking'',
       \<lparr> info_name = ''sequential-thinking'',
         info_description = ''Enables step-by-step reasoning for complex problems'',
         repository =
           ''https://github.com/modelcontextprotocol/servers/tree/main/sequential-thinking'',
         installCommand = ''npx'',
         installArgs = [''-y'', ''@modelcontextprotocol/server-sequential-thinking''],
         info_env = None \<rparr>)]"

text \<open>
  \<open>discoverMCPServers\<close>. The callbacks of \<open>Promise.all\<close> run concurrently and each
  adds at most the entry of its own directory; the model runs them in the order of the
  listing. Each catches its own exceptions, so it is the first request whose failure
  reaches the outer \<open>catch\<close>, which answers with the two default servers.
\<close>

definition discoverMCPServers ::
  "js_regexp \<Rightarrow> contents_response \<Rightarrow> string list \<Rightarrow> (string \<times> MCPServerInfo) list" where
  "discoverMCPServers rx response technologies =
     (case response of
        RequestThrows \<Rightarrow> fallback_servers
      | NotArray \<Rightarrow> []
      | Items data \<Rightarrow>
          fold (process_dir rx technologies)
            (filter (\<lambda>item. item_type item = ''dir'' \<and> \<not> startsWith_dot (item_name item)) data)
            [])"

subsection \<open>The synthesizer\<close>

definition technologies_of :: "'a TechnologyStack_scheme \<Rightarrow> string list" where
  "technologies_of stack = languages stack @ frameworks stack @ map toLowerCase (features stack)"

definition to_descriptor :: "MCPServerInfo \<Rightarrow> descriptor" where
  "to_descriptor serverInfo =
     \<lparr> command = installCommand serverInfo, args = installArgs serverInfo,
       env = info_env serverInfo \<rparr>"

text \<open>
  \<open>generateMCPConfig\<close> of project-analyzer.ts and of project-planner.ts: the two bodies
  are the same, the analyzer's is given a \<open>ProjectStats\<close> and the planner's a
  \<open>TechnologyStack\<close>.
\<close>

definition generateMCPConfig ::
  "js_regexp \<Rightarrow> contents_response \<Rightarrow> 'a TechnologyStack_scheme \<Rightarrow> MCPConfig" where
  "generateMCPConfig rx response stats =
     (let discoveredServers = discoverMCPServers rx response (technologies_of stats)
      in \<lparr> mcpServers =
             Some (fold (\<lambda>(serverName, serverInfo) config.
                           AList.update serverName (to_descriptor serverInfo) config)
                     discoveredServers []) \<rparr>)"

subsection \<open>Configurations read from a file\<close>

text \<open>
  The enhancer takes its configuration as \<open>any\<close>: it is what \<open>JSON.parse\<close> made of
  the user's \<open>.cursor/mcp.json\<close>, so any JSON value, whatever the values under its keys.
  A number is finite (\<open>Finite m e\<close> is \<open>m\<close> times two to the power \<open>e\<close>, zero when
  \<open>m = 0\<close>), the negative zero that \<open>JSON.parse\<close> reads from \<open>-0\<close>, or an infinity,
  which it reads from a literal too large for a double such as \<open>1e999\<close> (the flag is the
  sign). An object is the association list of its own properties. JavaScript enumerates
  the integer-like keys of an object first, in ascending order, and the other keys in
  the order of insertion; the list keeps the order of insertion for every key, so
  nothing below is about where an integer-like key stands.
\<close>

datatype jnum = Finite int int | MinusZero | Infinite bool

datatype json =
  JNull | JBool bool | JNum jnum | JStr string | JArr "json list" | JObj "(string \<times> json) list"

text \<open>What \<open>!v\<close> negates: \<open>null\<close>, \<open>false\<close>, a zero and the empty string are falsy.\<close>

fun json_truthy :: "json \<Rightarrow> bool" where
  "json_truthy JNull = False"
| "json_truthy (JBool b) = b"
| "json_truthy (JNum (Finite m e)) = (m \<noteq> 0)"
| "json_truthy (JNum MinusZero) = False"
| "json_truthy (JNum (Infinite negative)) = True"
| "json_truthy (JStr s) = (s \<noteq> [])"
| "json_truthy (JArr xs) = True"
| "json_truthy (JObj props) = True"

text \<open>
  \<open>JSON.parse(JSON.stringify(v))\<close>: \<open>JSON.stringify\<close> writes the negative zero as \<open>0\<close>
  and an infinity as \<open>null\<close>; every other value is read back as it was.
\<close>

fun json_copy :: "json \<Rightarrow> json"
  and copy_elements :: "json list \<Rightarrow> json list"
  and copy_properties :: "(string \<times> json) list \<Rightarrow> (string \<times> json) list" where
  "json_copy (JNum MinusZero) = JNum (Finite 0 0)"
| "json_copy (JNum (Infinite negative)) = JNull"
| "json_copy (JNum (Finite m e)) = JNum (Finite m e)"
| "json_copy JNull = JNull"
| "json_copy (JBool b) = JBool b"
| "json_copy (JStr s) = JStr s"
| "json_copy (JArr xs) = JArr (copy_elements xs)"
| "json_copy (JObj props) = JObj (copy_properties props)"
| "copy_elements [] = []"
| "copy_elements (x # xs) = json_copy x # copy_elements xs"
| "copy_properties [] = []"
| "copy_properties ((k, v) # props) = (k, json_copy v) # copy_properties props"

text \<open>
  The names every plain object inherits from \<open>Object.prototype\<close> (Node.js). Under each
  of them a lookup \<open>o[k]\<close> on an object without an own property \<open>k\<close> finds a function,
  and under \<open>__proto__\<close> the prototype itself: a truthy value.
\<close>

definition object_prototype_names :: "string list" where
  "object_prototype_names =
     [''constructor'', ''hasOwnProperty'', ''isPrototypeOf'', ''propertyIsEnumerable'',
      ''toLocaleString'', ''toString'', ''valueOf'', ''__proto__'',
      ''__defineGetter__'', ''__defineSetter__'', ''__lookupGetter__'', ''__lookupSetter__'']"

text \<open>
  The truthiness of \<open>o[k]\<close> for a plain object \<open>o\<close>: that of the own property when there
  is one, otherwise that of what the prototype has under the name, \<open>undefined\<close> (falsy)
  when it has nothing.
\<close>

definition property_truthy :: "(string \<times> json) list \<Rightarrow> string \<Rightarrow> bool" where
  "property_truthy obj k =
     (case map_of obj k of
        Some v \<Rightarrow> json_truthy v
      | None \<Rightarrow> k \<in> set object_prototype_names)"

text \<open>
  The descriptor the enhancer stores:
  \<open>{command: ..., args: ..., ...(serverInfo.env ? {env: serverInfo.env} : {})}\<close>.
\<close>

definition descriptor_value :: "MCPServerInfo \<Rightarrow> json" where
  "descriptor_value serverInfo =
     JObj ([(''command'', JStr (installCommand serverInfo)),
            (''args'', JArr (map JStr (installArgs serverInfo)))]
           @ (case info_env serverInfo of
                None \<Rightarrow> []
              | Some e \<Rightarrow> [(''env'', JObj (map (\<lambda>(k, v). (k, JStr v)) e))]))"

text \<open>\<open>if (!newConfig.mcpServers) { newConfig.mcpServers = {}; }\<close>\<close>

definition ensure_mcpServers :: "(string \<times> json) list \<Rightarrow> (string \<times> json) list" where
  "ensure_mcpServers newConfig =
     (if property_truthy newConfig ''mcpServers'' then newConfig
      else AList.update ''mcpServers'' (JObj []) newConfig)"

text \<open>
  The body of the loop over the discovered servers:
  \<open>if (!newConfig.mcpServers[serverName]) { newConfig.mcpServers[serverName] = {...}; }\<close>.
  The test is the truthiness of the lookup, so an own property with a falsy value is
  assigned to (replaced in place) and a name inherited from \<open>Object.prototype\<close> is
  skipped.
\<close>

definition add_missing ::
  "string \<times> MCPServerInfo \<Rightarrow> (string \<times> json) list \<Rightarrow> (string \<times> json) list" where
  "add_missing entry servers =
     (case entry of (serverName, serverInfo) \<Rightarrow>
        if property_truthy servers serverName then servers
        else AList.update serverName (descriptor_value serverInfo) servers)"

text \<open>
  \<open>generateEnhancedMCPConfig\<close> of project-enhancer.ts, on every JSON value.
  \<open>Throws\<close>: the copy is \<open>null\<close> (reading \<open>mcpServers\<close> of it is a \<open>TypeError\<close>) or
  another primitive (it has no \<open>mcpServers\<close>, and the assignment that follows is a
  \<open>TypeError\<close> in a module, which is strict code). \<open>Unmodelled\<close>: the configuration is an
  array, or its \<open>mcpServers\<close> is truthy and no object (a string, a number, \<open>true\<close>, an
  array) while there are discovered servers; the loop then reads and writes the
  properties of an array or of a primitive's wrapper, which this model does not
  describe. Every statement about the enhancer says which configurations it is about.
\<close>

datatype enhanced = Returns json | Throws | Unmodelled

definition generateEnhancedMCPConfig ::
  "js_regexp \<Rightarrow> contents_response \<Rightarrow> 'a TechnologyStack_scheme \<Rightarrow> json \<Rightarrow> enhanced" where
  "generateEnhancedMCPConfig rx response techStack existingConfig =
     (case json_copy existingConfig of
        JObj props \<Rightarrow>
          (let newConfig = ensure_mcpServers props;
               discoveredServers = discoverMCPServers rx response (technologies_of techStack)
           in case map_of newConfig ''mcpServers'' of
                Some (JObj servers) \<Rightarrow>
                  Returns (JObj (AList.update ''mcpServers''
                                   (JObj (fold add_missing discoveredServers servers))
                                   newConfig))
              | _ \<Rightarrow> if discoveredServers = [] then Returns (JObj newConfig) else Unmodelled)
      | JArr xs \<Rightarrow> Unmodelled
      | _ \<Rightarrow> Throws)"

text \<open>
  \<open>Object.keys(config.mcpServers || {})\<close>, \<open>None\<close> when \<open>config\<close> is \<open>null\<close> (a
  \<open>TypeError\<close>). Only an object has a property \<open>mcpServers\<close>; the own keys of an array
  or a string are its indices, a number or boolean has none.
\<close>

definition own_keys :: "json \<Rightarrow> string list" where
  "own_keys v =
     (case v of
        JObj props \<Rightarrow> map fst props
      | JArr xs \<Rightarrow> map digits [0 ..< length xs]
      | JStr s \<Rightarrow> map digits [0 ..< length s]
      | _ \<Rightarrow> [])"

definition tool_names :: "json \<Rightarrow> string list option" where
  "tool_names config =
     (case config of
        JNull \<Rightarrow> None
      | JObj props \<Rightarrow>
          (case map_of props ''mcpServers'' of
             None \<Rightarrow> Some []
           | Some v \<Rightarrow> Some (if json_truthy v then own_keys v else []))
      | _ \<Rightarrow> Some [])"

definition findNewTools :: "json \<Rightarrow> json \<Rightarrow> string list option" where
  "findNewTools oldConfig newConfig =
     (case tool_names oldConfig of
        None \<Rightarrow> None
      | Some oldTools \<Rightarrow>
          (case tool_names newConfig of
             None \<Rightarrow> None
           | Some newTools \<Rightarrow> Some (filter (\<lambda>tool. tool \<notin> set oldTools) newTools)))"

section \<open>The free-text classifier (project-planner.ts)\<close>

text \<open>
  The patterns of the first tests of \<open>analyzeTechStack\<close>. The TypeScript test has the
  pattern \<open>typescript_pattern\<close>; the JavaScript test has \<open>javascript_pattern\<close> and,
  negated, \<open>typescript_guard\<close>, which is \<open>/typescript|ts/i\<close>.
\<close>

definition typescript_pattern :: regex where
  "typescript_pattern =
     Alt [Lit ''typescript'', Lit ''ts'', Lit ''angular'', Lit ''react'',
          Cat [Lit ''next'', Opt (Lit ''.''), Lit ''js''], Lit ''vue'',
          Cat [Lit ''node'', Opt (Lit ''.''), Lit ''js'']]"

definition javascript_pattern :: regex where
  "javascript_pattern =
     Alt [Lit ''javascript'', Lit ''js'', Cat [Lit ''node'', Opt (Lit ''.''), Lit ''js''],
          Lit ''express'', Lit ''react'', Lit ''vue'']"

definition typescript_guard :: regex where
  "typescript_guard = Alt [Lit ''typescript'', Lit ''ts'']"

definition python_pattern :: regex where
  "python_pattern =
     Alt [Lit ''python'', Lit ''django'', Lit ''flask'', Lit ''fastapi'', Lit ''jupyter'',
          Lit ''numpy'', Lit ''pandas'']"

definition go_pattern :: regex where
  "go_pattern = Alt [Lit ''go'', Lit ''golang'']"

text \<open>\<open>if (description.match(r)) list.push(label)\<close>, as the labels it appends.\<close>

definition push_if :: "bool \<Rightarrow> string \<Rightarrow> string list" where
  "push_if b label = (if b then [label] else [])"

definition analyzeTechStack :: "string \<Rightarrow> TechnologyStack" where
  "analyzeTechStack description =
     \<lparr> languages = concat
         [push_if (rx_match typescript_pattern description) ''TypeScript'',
          push_if (rx_match javascript_pattern description
                   \<and> \<not> rx_match typescript_guard description) ''JavaScript'',
          push_if (rx_match python_pattern description) ''Python'',
          push_if (rx_match (Alt [Lit ''java'', Lit ''spring'', Lit ''springboot'',
                                  Lit ''gradle'', Lit ''maven'']) description) ''Java'',
          push_if (rx_match go_pattern description) ''Go'',
          push_if (rx_match (Alt [Lit ''ruby'', Lit ''rails'', Lit ''rack'', Lit ''sinatra''])
                     description) ''Ruby'',
          push_if (rx_match (Alt [Lit ''c#'', Lit ''.net'', Lit ''asp.net'', Lit ''dotnet''])
                     description) ''C#'',
          push_if (rx_match (Alt [Lit ''php'', Lit ''laravel'', Lit ''symfony'',
                                  Lit ''wordpress'']) description) ''PHP'',
          push_if (rx_match (Alt [Lit ''swift'', Lit ''ios'', Lit ''iphone'', Lit ''ipad''])
                     description) ''Swift'',
          push_if (rx_match (Alt [Lit ''kotlin'', Lit ''android'']) description) ''Kotlin'',
          push_if (rx_match (Alt [Lit ''rust'', Lit ''cargo'']) description) ''Rust''],
       frameworks = concat
         [push_if (rx_match (Lit ''react'') description) ''React'',
          push_if (rx_match (Cat [Lit ''next'', Opt (Lit ''.''), Lit ''js'']) description)
            ''Next.js'',
          push_if (rx_match (Alt [Lit ''vue'', Cat [Lit ''vue'', Opt (Lit ''.''), Lit ''js'']])
                     description) ''Vue.js'',
          push_if (rx_match (Lit ''angular'') description) ''Angular'',
          push_if (rx_match (Alt [Lit ''express'',
                                  Cat [Lit ''express'', Opt (Lit ''.''), Lit ''js'']])
                     description) ''Express'',
          push_if (rx_match (Lit ''django'') description) ''Django'',
          push_if (rx_match (Lit ''flask'') description) ''Flask'',
          push_if (rx_match (Lit ''fastapi'') description) ''FastAPI'',
          push_if (rx_match (Alt [Lit ''rails'',
                                  Cat [Lit ''ruby'', Spaces 1, Lit ''on'', Spaces 1,
                                       Lit ''rails'']]) description) ''Rails'',
          push_if (rx_match (Alt [Lit ''spring'', Cat [Lit ''spring'', Spaces 0, Lit ''boot'']])
                     description) ''Spring'',
          push_if (rx_match (Lit ''laravel'') description) ''Laravel'',
          push_if (rx_match (Cat [Lit ''asp.net'', Spaces 0, Opt (Lit ''core'')]) description)
            ''ASP.NET'',
          push_if (rx_match (Lit ''svelte'') description) ''Svelte'',
          push_if (rx_match (Lit ''flutter'') description) ''Flutter'',
          push_if (rx_match (Lit ''gatsby'') description) ''Gatsby'',
          push_if (rx_match (Lit ''nuxt'') description) ''Nuxt.js''],
       features = concat
         [push_if (rx_match (Alt [Lit ''api'', Lit ''rest'', Lit ''restful'', Lit ''graphql'',
                                  Lit ''endpoint'']) description) ''API'',
          push_if (rx_match (Alt [Lit ''database'', Lit ''db'', Lit ''sql'', Lit ''nosql'',
                                  Lit ''mongo'', Lit ''postgres'', Lit ''mysql'',
                                  Lit ''sqlite'']) description) ''Database'',
          push_if (rx_match (Alt [Lit ''auth'', Lit ''authentication'', Lit ''login'',
                                  Lit ''user'', Lit ''permission'', Lit ''role'', Lit ''jwt'',
                                  Lit ''oauth'']) description) ''Authentication'',
          push_if (rx_match (Alt [Lit ''frontend'', Lit ''ui'', Lit ''interface'',
                                  Lit ''client'', Lit ''spa'',
                                  Cat [Lit ''single'', Spaces 0, Lit ''page'']]) description)
            ''Frontend'',
          push_if (rx_match (Alt [Lit ''backend'', Lit ''server'', Lit ''api'']) description)
            ''Backend'',
          push_if (rx_match (Alt [Lit ''mobile'', Lit ''ios'', Lit ''android'', Lit ''app'',
                                  Cat [Lit ''react'', Spaces 0, Lit ''native'']]) description)
            ''Mobile'',
          push_if (rx_match (Alt [Lit ''test'', Lit ''jest'', Lit ''mocha'', Lit ''cypress'',
                                  Lit ''testing'', Cat [Lit ''unit'', Spaces 0, Lit ''test''],
                                  Lit ''e2e'']) description) ''Testing'',
          push_if (rx_match (Alt [Lit ''docker'', Lit ''container'', Lit ''kubernetes'',
                                  Lit ''k8s'', Lit ''containeriz'']) description)
            ''Containerization'',
          push_if (rx_match (Alt [Lit ''ci'', Lit ''cd'', Lit ''ci/cd'',
                                  Cat [Lit ''continuous'', Spaces 0, Lit ''integration''],
                                  Cat [Lit ''continuous'', Spaces 0, Lit ''deployment''],
                                  Cat [Lit ''github'', Spaces 0, Lit ''actions''],
                                  Lit ''jenkins'']) description) ''CI/CD'',
          push_if (rx_match (Alt [Lit ''file'', Lit ''upload'', Lit ''download'',
                                  Lit ''storage'', Lit ''s3'', Lit ''blob'']) description)
            ''File Storage'',
          push_if (rx_match (Alt [Cat [Lit ''real'', Spaces 0, Lit ''time''], Lit ''websocket'',
                                  Lit ''socket.io'',
                                  Cat [Lit ''live'', Spaces 0, Lit ''update'']]) description)
            ''Real-time'',
          push_if (rx_match (Alt [Lit ''analytics'', Lit ''metrics'', Lit ''monitoring'',
                                  Lit ''logging'']) description) ''Analytics''] \<rparr>"

section \<open>The directory walks\<close>

text \<open>
  The directory tree the walk reads is an input of the model. A directory entry is a
  regular file (its name, and its content as \<open>fs.readFile(path, 'utf-8')\<close> returns it,
  \<open>None\<close> when the read fails), a directory (its name and what \<open>fs.readdir\<close> answers
  for it), or something that is neither (\<open>isDirectory()\<close> and \<open>isFile()\<close> both false:
  a symbolic link, a socket). \<open>fs.readdir\<close> either rejects with an error code or lists
  the entries.
\<close>

datatype node = File string "string option" | Dir string listing | Other string
and listing = Fails string | Lists "node list"

text \<open>
  The state a walk changes: the \<open>ProjectStats\<close> accumulator it is given, and the lines
  written with \<open>console.warn\<close> and \<open>console.error\<close>.
\<close>

record walk_state =
  the_stats :: ProjectStats
  the_console :: "string list"

definition MAX_SCAN_DEPTH :: nat where "MAX_SCAN_DEPTH = 10"
definition MAX_FILES :: nat where "MAX_FILES = 10000"

definition ignored_directories :: "string list" where
  "ignored_directories =
     [''node_modules'', ''.git'', ''venv'', ''__pycache__'', ''.next'', ''dist'', ''build'']"

text \<open>\<open>path.join(dir, entry)\<close> for a directory path and the name of one of its entries.\<close>

definition path_join :: "string \<Rightarrow> string \<Rightarrow> string" where
  "path_join dir entry = dir @ ''/'' @ entry"

text \<open>
  \<open>path.extname\<close> of Node (POSIX) on a name without a slash: the text from the last
  dot on; empty when there is no dot, when the last dot is the first character, or when
  the name is \<open>..\<close>.
\<close>

definition extname :: "string \<Rightarrow> string" where
  "extname p =
     (let startDot = length p - Suc (length (takeWhile (\<lambda>c. c \<noteq> CHR ''.'') (rev p)))
      in if CHR ''.'' \<notin> set p \<or> startDot = 0 \<or> p = ''..'' then [] else drop startDot p)"

text \<open>\<open>stats.fileTypes[ext] = (stats.fileTypes[ext] || 0) + 1\<close>\<close>

definition count_extension :: "string \<Rightarrow> ProjectStats \<Rightarrow> ProjectStats" where
  "count_extension ext st =
     st\<lparr> fileTypes :=
           AList.update ext ((case map_of (fileTypes st) ext of None \<Rightarrow> 0 | Some n \<Rightarrow> n) + 1)
             (fileTypes st) \<rparr>"

subsection \<open>The bounded walk (utils/fs.ts)\<close>

text \<open>
  \<open>scanProjectDirectory\<close> returns the error it throws, if any, beside the state it
  leaves: the accumulator is shared, so what was counted before a throw stays counted.
  \<open>on_error\<close> is its \<open>catch\<close> block, around \<open>readdir\<close> and the loop over the entries
  alike. \<open>fileCount\<close> is a parameter passed by value: a recursive call starts from the
  caller's count, and what it counts is not handed back.
\<close>

definition on_error :: "string \<Rightarrow> string option \<times> walk_state \<Rightarrow> string option \<times> walk_state" where
  "on_error projectPath r =
     (case r of
        (None, s) \<Rightarrow> (None, s)
      | (Some code, s) \<Rightarrow>
          if code = ''EACCES''
          then (None, s\<lparr> the_console := the_console s @ [''Permission denied accessing '' @ projectPath] \<rparr>)
          else (Some code, s))"

fun scanProjectDirectory ::
  "string \<Rightarrow> listing \<Rightarrow> nat \<Rightarrow> nat \<Rightarrow> walk_state \<Rightarrow> string option \<times> walk_state"
and scan_entries ::
  "string \<Rightarrow> node list \<Rightarrow> nat \<Rightarrow> nat \<Rightarrow> walk_state \<Rightarrow> string option \<times> walk_state"
where
  "scanProjectDirectory projectPath (Fails code) currentDepth fileCount s =
     (if currentDepth \<ge> MAX_SCAN_DEPTH \<or> fileCount \<ge> MAX_FILES then (None, s)
      else on_error projectPath (Some code, s))"
| "scanProjectDirectory projectPath (Lists entries) currentDepth fileCount s =
     (if currentDepth \<ge> MAX_SCAN_DEPTH \<or> fileCount \<ge> MAX_FILES then (None, s)
      else on_error projectPath (scan_entries projectPath entries currentDepth fileCount s))"
| "scan_entries projectPath [] currentDepth fileCount s = (None, s)"
| "scan_entries projectPath (Dir name' sub # entries) currentDepth fileCount s =
     (if name' \<in> set ignored_directories
      then scan_entries projectPath entries currentDepth fileCount s
      else
        (case scanProjectDirectory (path_join projectPath name') sub (currentDepth + 1)
                fileCount s of
           (Some code, s') \<Rightarrow> (Some code, s')
         | (None, s') \<Rightarrow> scan_entries projectPath entries currentDepth fileCount s'))"
| "scan_entries projectPath (File name' content # entries) currentDepth fileCount s =
     (let ext = toLowerCase (extname name')
      in scan_entries projectPath entries currentDepth (fileCount + 1)
           (if ext \<noteq> [] then s\<lparr> the_stats := count_extension ext (the_stats s) \<rparr> else s))"
| "scan_entries projectPath (Other name' # entries) currentDepth fileCount s =
     scan_entries projectPath entries currentDepth fileCount s"


subsection \<open>The analyzer's walk (project-analyzer.ts)\<close>

text \<open>
  \<open>JSON.parse\<close> is a parameter. Of a parsed package manifest the walk uses the keys of
  \<open>dependencies\<close> and \<open>devDependencies\<close> and whether their values are truthy, so the
  parser answers with these two objects as lists of key and truthiness (an absent field
  is the empty object), or with \<open>None\<close> when \<open>JSON.parse\<close> throws or gives \<open>null\<close>.
\<close>

type_synonym js_object = "(string \<times> bool) list"
type_synonym json_parse = "string \<Rightarrow> (js_object \<times> js_object) option"

text \<open>\<open>if (!list.includes(x)) list.push(x)\<close>\<close>

definition add_unique :: "string \<Rightarrow> string list \<Rightarrow> string list" where
  "add_unique x xs = (if x \<notin> set xs then xs @ [x] else xs)"

text \<open>The chain of \<open>else if\<close> that detects a language from a file extension.\<close>

definition detect_language :: "string \<Rightarrow> string list \<Rightarrow> string list" where
  "detect_language ext langs =
     (if ext \<in> set [''.js'', ''.jsx''] \<and> ''JavaScript'' \<notin> set langs then langs @ [''JavaScript'']
      else if ext \<in> set [''.ts'', ''.tsx''] \<and> ''TypeScript'' \<notin> set langs
        then langs @ [''TypeScript'']
      else if ext = ''.py'' \<and> ''Python'' \<notin> set langs then langs @ [''Python'']
      else if ext = ''.java'' \<and> ''Java'' \<notin> set langs then langs @ [''Java'']
      else if ext = ''.go'' \<and> ''Go'' \<notin> set langs then langs @ [''Go'']
      else if ext \<in> set [''.rb'', ''.rake''] \<and> ''Ruby'' \<notin> set langs then langs @ [''Ruby'']
      else if ext \<in> set [''.php''] \<and> ''PHP'' \<notin> set langs then langs @ [''PHP'']
      else if ext \<in> set [''.cs''] \<and> ''C#'' \<notin> set langs then langs @ [''C#'']
      else if ext \<in> set [''.rs''] \<and> ''Rust'' \<notin> set langs then langs @ [''Rust'']
      else if ext \<in> set [''.swift''] \<and> ''Swift'' \<notin> set langs then langs @ [''Swift'']
      else if ext \<in> set [''.kt'', ''.kts''] \<and> ''Kotlin'' \<notin> set langs then langs @ [''Kotlin'']
      else if ext \<in> set [''.dart''] \<and> ''Dart'' \<notin> set langs then langs @ [''Dart'']
      else langs)"

text \<open>
  \<open>{...a, ...b}\<close>, and the test \<open>deps[k]\<close> for a truthy value. A framework is pushed
  when one of its keys is present and its label is not yet in the list; a feature is
  pushed when one of its keys is present, with no test of the list.
\<close>

definition spread :: "js_object \<Rightarrow> js_object \<Rightarrow> js_object" where
  "spread a b = fold (\<lambda>(k, v). AList.update k v) (a @ b) []"

definition truthy :: "js_object \<Rightarrow> string \<Rightarrow> bool" where
  "truthy deps k = (map_of deps k = Some True)"

definition push_framework ::
  "(string \<Rightarrow> bool) \<Rightarrow> string list \<times> string \<Rightarrow> string list \<Rightarrow> string list" where
  "push_framework present entry fws =
     (case entry of (keys, label) \<Rightarrow>
        if list_ex present keys \<and> label \<notin> set fws then fws @ [label] else fws)"

definition push_feature ::
  "(string \<Rightarrow> bool) \<Rightarrow> string list \<times> string \<Rightarrow> string list \<Rightarrow> string list" where
  "push_feature present entry fs =
     (case entry of (keys, label) \<Rightarrow> if list_ex present keys then fs @ [label] else fs)"

definition scan_package_json :: "js_object \<Rightarrow> ProjectStats \<Rightarrow> ProjectStats" where
  "scan_package_json deps st =
     st\<lparr> dependencies := fold add_unique (map fst deps) (dependencies st),
         frameworks :=
           fold (push_framework (truthy deps))
             [([''react''], ''React''), ([''vue''], ''Vue''), ([''next''], ''Next.js''),
              ([''express''], ''Express''), ([''angular'', ''@angular/core''], ''Angular''),
              ([''svelte''], ''Svelte''), ([''gatsby''], ''Gatsby''), ([''nuxt''], ''Nuxt.js'')]
             (frameworks st),
         features :=
           fold (push_feature (truthy deps))
             [([''passport'', ''jsonwebtoken'', ''auth0'', ''firebase-auth''], ''Authentication''),
              ([''mongoose'', ''sequelize'', ''typeorm'', ''prisma'', ''pg'', ''mysql'',
                ''sqlite'', ''mongodb''], ''Database''),
              ([''express'', ''fastify'', ''koa'', ''hapi'', ''restify'', ''nest'', ''graphql''],
               ''API''),
              ([''jest'', ''mocha'', ''jasmine'', ''cypress'', ''playwright'', ''vitest'',
                ''chai''], ''Testing''),
              ([''docker-compose'', ''kubernetes'', ''k8s''], ''Containerization''),
              ([''multer'', ''aws-sdk'', ''@aws-sdk/client-s3'', ''firebase-storage'',
                ''cloudinary''], ''File Storage''),
              ([''socket.io'', ''ws'', ''websocket''], ''Real-time'')]
             (features st) \<rparr>"

text \<open>
  \<open>content.split('\n')\<close>, \<open>trim\<close>, the first piece of \<open>line.split(sep)\<close> and
  \<open>content.includes(t)\<close>.
\<close>

fun split_on :: "char \<Rightarrow> string \<Rightarrow> string list" where
  "split_on c [] = [[]]"
| "split_on c (x # xs) =
     (if x = c then [] # split_on c xs
      else (case split_on c xs of [] \<Rightarrow> [[x]] | l # ls \<Rightarrow> (x # l) # ls))"

definition trim :: "string \<Rightarrow> string" where
  "trim s = rev (dropWhile is_space (rev (dropWhile is_space s)))"

fun before :: "string \<Rightarrow> string \<Rightarrow> string" where
  "before sep [] = []"
| "before sep (c # cs) = (if take (length sep) (c # cs) = sep then [] else c # before sep cs)"

definition js_includes :: "string \<Rightarrow> string \<Rightarrow> bool" where
  "js_includes s t = list_ex (\<lambda>k. take (length t) (drop k s) = t) [0 ..< Suc (length s)]"

definition requirements :: "string \<Rightarrow> string list" where
  "requirements content =
     map (\<lambda>line. trim (before ''>='' (before ''=='' line)))
       (filter (\<lambda>line. line \<noteq> []) (map trim (split_on CHR 0x0A content)))"

definition scan_requirements :: "string \<Rightarrow> ProjectStats \<Rightarrow> ProjectStats" where
  "scan_requirements content st =
     (let reqs = requirements content
      in st\<lparr> dependencies :=
               fold (\<lambda>req deps. if req \<noteq> [] \<and> req \<notin> set deps then deps @ [req] else deps) reqs
                 (dependencies st),
             frameworks :=
               fold (push_framework (\<lambda>k. list_ex (\<lambda>r. toLowerCase r = k) reqs))
                 [([''django''], ''Django''), ([''flask''], ''Flask''),
                  ([''fastapi''], ''FastAPI'')]
                 (frameworks st),
             features :=
               fold (\<lambda>(keys, label) fs.
                       if list_ex (\<lambda>r. toLowerCase r \<in> set keys) reqs then fs @ [label] else fs)
                 [([''authlib'', ''flask-login'', ''django-auth'', ''python-jose'',
                    ''djangorestframework-simplejwt''], ''Authentication''),
                  ([''sqlalchemy'', ''django-orm'', ''pymongo'', ''psycopg2'',
                    ''mysql-connector-python''], ''Database''),
                  ([''django-rest-framework'', ''flask-restful'', ''fastapi'', ''graphene''],
                   ''API''),
                  ([''pytest'', ''unittest'', ''nose'', ''behave'', ''robot''], ''Testing'')]
                 (features st) \<rparr>)"

definition scan_build_file :: "string \<Rightarrow> string option \<Rightarrow> ProjectStats \<Rightarrow> ProjectStats" where
  "scan_build_file name' content st =
     (let langs = add_unique ''Java'' (languages st);
          fw1 = (if name' = ''build.gradle'' \<and> ''Gradle'' \<notin> set (frameworks st)
                 then frameworks st @ [''Gradle''] else frameworks st);
          fw2 = (if name' = ''pom.xml'' \<and> ''Maven'' \<notin> set fw1 then fw1 @ [''Maven''] else fw1);
          fw3 = (case content of
                   None \<Rightarrow> fw2
                 | Some c \<Rightarrow>
                     if js_includes c ''org.springframework'' \<and> ''Spring'' \<notin> set fw2
                     then fw2 @ [''Spring''] else fw2)
      in st\<lparr> languages := langs, frameworks := fw3 \<rparr>)"

definition scan_gemfile :: "string option \<Rightarrow> ProjectStats \<Rightarrow> ProjectStats" where
  "scan_gemfile content st =
     st\<lparr> languages := add_unique ''Ruby'' (languages st),
         frameworks :=
           (case content of
              None \<Rightarrow> frameworks st
            | Some c \<Rightarrow>
                if js_includes c ''rails'' \<and> ''Rails'' \<notin> set (frameworks st)
                then frameworks st @ [''Rails''] else frameworks st) \<rparr>"

definition scan_file :: "json_parse \<Rightarrow> string \<Rightarrow> string option \<Rightarrow> ProjectStats \<Rightarrow> ProjectStats" where
  "scan_file parse name' content st0 =
     (let ext = toLowerCase (extname name');
          st = (if ext \<noteq> []
                then (count_extension ext st0)\<lparr> languages := detect_language ext (languages st0) \<rparr>
                else st0)
      in if name' = ''package.json'' then
           (case content of
              None \<Rightarrow> st
            | Some c \<Rightarrow>
                (case parse c of
                   None \<Rightarrow> st
                 | Some (deps, devDeps) \<Rightarrow> scan_package_json (spread deps devDeps) st))
         else if name' = ''requirements.txt'' then
           (case content of None \<Rightarrow> st | Some c \<Rightarrow> scan_requirements c st)
         else if name' = ''build.gradle'' \<or> name' = ''pom.xml'' then scan_build_file name' content st
         else if name' = ''Gemfile'' then scan_gemfile content st
         else if name' = ''Dockerfile'' \<or> name' = ''docker-compose.yml''
                 \<or> name' = ''docker-compose.yaml''
           then st\<lparr> features := features st @ [''Containerization''] \<rparr>
         else if name' = ''.github/workflows'' \<or> name' = ''Jenkinsfile''
                 \<or> name' = ''.gitlab-ci.yml''
           then st\<lparr> features := features st @ [''CI/CD''] \<rparr>
         else st)"

text \<open>
  \<open>scanDir\<close> catches every error of \<open>readdir\<close> and of its loop, writes a line with
  \<open>console.error\<close> (the error is shown by its code) and returns: it never throws.
\<close>

fun scanDir :: "json_parse \<Rightarrow> string \<Rightarrow> listing \<Rightarrow> walk_state \<Rightarrow> walk_state"
and scanDir_entries :: "json_parse \<Rightarrow> string \<Rightarrow> node list \<Rightarrow> walk_state \<Rightarrow> walk_state"
where
  "scanDir parse dirPath (Fails code) s =
     s\<lparr> the_console := the_console s @ [''Error scanning directory '' @ dirPath @ '': '' @ code] \<rparr>"
| "scanDir parse dirPath (Lists entries) s = scanDir_entries parse dirPath entries s"
| "scanDir_entries parse dirPath [] s = s"
| "scanDir_entries parse dirPath (Dir name' sub # entries) s =
     (if name' \<in> set ignored_directories then scanDir_entries parse dirPath entries s
      else scanDir_entries parse dirPath entries (scanDir parse (path_join dirPath name') sub s))"
| "scanDir_entries parse dirPath (File name' content # entries) s =
     scanDir_entries parse dirPath entries
       (s\<lparr> the_stats := scan_file parse name' content (the_stats s) \<rparr>)"
| "scanDir_entries parse dirPath (Other name' # entries) s = scanDir_entries parse dirPath entries s"

text \<open>
  \<open>scanProject\<close>: a fresh accumulator, the walk, and \<open>[...new Set(stats.features)]\<close>,
  which keeps the first occurrence of each feature.
\<close>

definition empty_stats :: ProjectStats where
  "empty_stats =
     \<lparr> languages = [], frameworks = [], features = [], fileTypes = [], dependencies = [] \<rparr>"

definition scanProject :: "json_parse \<Rightarrow> string \<Rightarrow> listing \<Rightarrow> walk_state" where
  "scanProject parse projectPath root =
     (let s = scanDir parse projectPath root \<lparr> the_stats = empty_stats, the_console = [] \<rparr>
      in s\<lparr> the_stats := (the_stats s)\<lparr> features := fold add_unique (features (the_stats s)) [] \<rparr> \<rparr>)"

subsection \<open>The entry point \<open>analyzeProject\<close>\<close>

text \<open>
  What the file system and the network answer during one call is the record
  \<open>analyze_world\<close>: the message of the error \<open>fs.access\<close> rejects with, the tree under
  the project path, the answer of the discovery request, and the message of the error
  of the first \<open>fs.writeFile\<close> that rejects. The errors of \<open>fs.mkdir\<close> are caught where
  they arise and the rules are not part of the report, so neither is modelled. The
  report is a template over the statistics and the configuration and is kept as these
  two; an exception anywhere in the \<open>try\<close> block becomes the text
  \<open>Error analyzing project: \<close> followed by its message.
\<close>

record analyze_world =
  access_error :: "string option"
  project_tree :: listing
  discovery_response :: contents_response
  write_error :: "string option"

datatype analysis = Report ProjectStats MCPConfig | ErrorText string

definition analyzeProject :: "json_parse \<Rightarrow> js_regexp \<Rightarrow> string \<Rightarrow> analyze_world \<Rightarrow> analysis" where
  "analyzeProject parse rx projectPath world =
     (case access_error world of
        Some message \<Rightarrow> ErrorText (''Error analyzing project: '' @ message)
      | None \<Rightarrow>
          (let st = the_stats (scanProject parse projectPath (project_tree world));
               mcpConfig = generateMCPConfig rx (discovery_response world) st
           in case write_error world of
                Some message \<Rightarrow> ErrorText (''Error analyzing project: '' @ message)
              | None \<Rightarrow> Report st mcpConfig))"

subsection \<open>The detector of utils/detectors.ts\<close>

definition languageMap :: "(string \<times> string) list" where
  "languageMap =
     [(''.js'', ''JavaScript''), (''.jsx'', ''JavaScript''), (''.ts'', ''TypeScript''),
      (''.tsx'', ''TypeScript''), (''.py'', ''Python''), (''.java'', ''Java''), (''.go'', ''Go''),
      (''.rb'', ''Ruby''), (''.rake'', ''Ruby''), (''.php'', ''PHP''), (''.cs'', ''C#''),
      (''.rs'', ''Rust''), (''.swift'', ''Swift''), (''.kt'', ''Kotlin''), (''.kts'', ''Kotlin''),
      (''.dart'', ''Dart'')]"

definition detectLanguageFromExtension :: "string \<Rightarrow> ProjectStats \<Rightarrow> ProjectStats" where
  "detectLanguageFromExtension ext st =
     (case map_of languageMap ext of
        None \<Rightarrow> st
      | Some language \<Rightarrow>
          if language \<notin> set (languages st)
          then st\<lparr> languages := languages st @ [language] \<rparr> else st)"

section \<open>Notions used to state the properties\<close>

text \<open>The tree without its ignored directories, at every level.\<close>

fun strip_ignored :: "listing \<Rightarrow> listing"
and strip_entries :: "node list \<Rightarrow> node list"
where
  "strip_ignored (Fails code) = Fails code"
| "strip_ignored (Lists entries) = Lists (strip_entries entries)"
| "strip_entries [] = []"
| "strip_entries (Dir name' sub # entries) =
     (if name' \<in> set ignored_directories then strip_entries entries
      else Dir name' (strip_ignored sub) # strip_entries entries)"
| "strip_entries (File name' content # entries) = File name' content # strip_entries entries"
| "strip_entries (Other name' # entries) = Other name' # strip_entries entries"

text \<open>
  The tree cut at a depth: \<open>cut_at k dir\<close> keeps the entries of the directories at depths
  \<open>0\<close> to \<open>k - 1\<close> under \<open>dir\<close> (\<open>dir\<close> itself is at depth \<open>0\<close>) and empties the
  directories at depth \<open>k\<close>. \<open>nest k dir\<close> is \<open>dir\<close> at the end of a chain of \<open>k\<close>
  directories named \<open>sub\<close>.
\<close>

fun cut_at :: "nat \<Rightarrow> listing \<Rightarrow> listing"
and cut_entries :: "nat \<Rightarrow> node list \<Rightarrow> node list"
where
  "cut_at 0 dir = Lists []"
| "cut_at (Suc k) (Fails code) = Fails code"
| "cut_at (Suc k) (Lists entries) = Lists (cut_entries k entries)"
| "cut_entries k [] = []"
| "cut_entries k (Dir name' sub # entries) = Dir name' (cut_at k sub) # cut_entries k entries"
| "cut_entries k (File name' content # entries) = File name' content # cut_entries k entries"
| "cut_entries k (Other name' # entries) = Other name' # cut_entries k entries"

fun nest :: "nat \<Rightarrow> listing \<Rightarrow> listing" where
  "nest 0 dir = dir"
| "nest (Suc k) dir = Lists [Dir ''sub'' (nest k dir)]"

text \<open>
  \<open>js_files n\<close>: the \<open>n\<close> files \<open>f0.js\<close>, \<open>f1.js\<close>, ... of a directory, none of them
  readable (the bounded walk reads no file).
\<close>

definition js_name :: "nat \<Rightarrow> string" where
  "js_name i = ''f'' @ digits i @ ''.js''"

definition js_files :: "nat \<Rightarrow> node list" where
  "js_files n = map (\<lambda>i. File (js_name i) None) [0 ..< n]"


text \<open>The number of regular files among the entries of a directory.\<close>

fun is_file :: "node \<Rightarrow> bool" where
  "is_file (File name' content) = True"
| "is_file (Dir name' sub) = False"
| "is_file (Other name') = False"

definition count_files :: "node list \<Rightarrow> nat" where
  "count_files entries = length (filter is_file entries)"

text \<open>The three lists the analyzer's walk guards with \<open>includes\<close> hold no value twice.\<close>

definition no_duplicates :: "ProjectStats \<Rightarrow> bool" where
  "no_duplicates st \<longleftrightarrow>
     distinct (languages st) \<and> distinct (frameworks st) \<and> distinct (dependencies st)"

section \<open>Example inputs\<close>

definition no_regexp :: js_regexp where
  "no_regexp = \<lparr> rx_test = (\<lambda>tech content. Some False), rx_paragraph = (\<lambda>content. None) \<rparr>"

definition no_json :: json_parse where
  "no_json = (\<lambda>content. None)"

definition no_stack :: TechnologyStack where
  "no_stack = \<lparr> languages = [], frameworks = [], features = [] \<rparr>"

text \<open>An item of the repository listing: a directory whose README request answers 404.\<close>

definition a_directory :: "string \<Rightarrow> repo_item" where
  "a_directory n = \<lparr> item_type = ''dir'', item_name = n, item_readme = Readme 404 [] \<rparr>"


definition start :: walk_state where
  "start = \<lparr> the_stats = empty_stats, the_console = [] \<rparr>"

section \<open>Properties of the synthesizer\<close>


lemma add_missing_keeps_truthy:
  "map_of s k = Some v \<Longrightarrow> json_truthy v \<Longrightarrow> map_of (add_missing e s) k = Some v"
  by (cases e) (auto simp: add_missing_def property_truthy_def update_conv')

lemma fold_add_missing_keeps_truthy:
  "map_of s k = Some v \<Longrightarrow> json_truthy v \<Longrightarrow> map_of (fold add_missing ds s) k = Some v"
  by (induction ds arbitrary: s) (auto simp: add_missing_keeps_truthy)

lemma map_of_Some_key: "map_of s k = Some v \<Longrightarrow> k \<in> fst ` set s"
  by (induction s) (auto split: if_splits)

lemma add_missing_keys:
  "fst ` set (add_missing e s)
     = fst ` set s \<union> (if fst e \<in> set object_prototype_names then {} else {fst e})"
  by (cases e)
     (auto simp: add_missing_def property_truthy_def dom_update map_of_eq_None_iff
           dest: map_of_Some_key split: option.splits)

lemma fold_add_missing_keys:
  "fst ` set (fold add_missing ds s)
     = fst ` set s \<union> {k \<in> fst ` set ds. k \<notin> set object_prototype_names}"
  by (induction ds arbitrary: s) (auto simp: add_missing_keys)


text \<open>
  What the enhancer returns for a configuration object whose \<open>mcpServers\<close>, once the
  code has made sure that it exists, is an object.
\<close>

lemma enhanced_object:
  assumes "json_copy existingConfig = JObj props"
    and "map_of (ensure_mcpServers props) ''mcpServers'' = Some (JObj servers)"
  shows "generateEnhancedMCPConfig rx response techStack existingConfig
           = Returns (JObj (AList.update ''mcpServers''
               (JObj (fold add_missing
                        (discoverMCPServers rx response (technologies_of techStack)) servers))
               (ensure_mcpServers props)))"
  using assms by (simp add: generateEnhancedMCPConfig_def Let_def)

lemma tool_names_enhanced:
  "tool_names (JObj (AList.update ''mcpServers'' (JObj servers) config))
     = Some (map fst servers)"
  by (simp add: tool_names_def update_conv' own_keys_def)

lemma ensure_mcpServers_names:
  assumes "map_of (ensure_mcpServers props) ''mcpServers'' = Some (JObj servers)"
  shows "tool_names (JObj props) = Some (map fst servers)"
proof (cases "property_truthy props ''mcpServers''")
  case True
  then show ?thesis
    using assms by (simp add: ensure_mcpServers_def tool_names_def own_keys_def
        property_truthy_def split: option.splits)
next
  case False
  then have "servers = []"
    using assms by (simp add: ensure_mcpServers_def update_conv')
  then show ?thesis
    using False by (auto simp: tool_names_def property_truthy_def split: option.splits)
qed

text \<open>
  The part of claim C2 that holds: the enhancement keeps every key of the tool map, and
  every entry with a truthy value, so every entry that holds a descriptor, as the copy
  left it.
\<close>

lemma enhance_keeps_truthy_entries:
  assumes "json_copy existingConfig = JObj props"
    and "map_of (ensure_mcpServers props) ''mcpServers'' = Some (JObj servers)"
  shows "\<exists>servers'.
           generateEnhancedMCPConfig rx response techStack existingConfig
             = Returns (JObj (AList.update ''mcpServers'' (JObj servers')
                          (ensure_mcpServers props)))
           \<and> fst ` set servers \<subseteq> fst ` set servers'
           \<and> (\<forall>tool v. map_of servers tool = Some v \<and> json_truthy v
                  \<longrightarrow> map_of servers' tool = Some v)"
proof (intro exI conjI allI impI)
  show "generateEnhancedMCPConfig rx response techStack existingConfig
          = Returns (JObj (AList.update ''mcpServers''
              (JObj (fold add_missing
                       (discoverMCPServers rx response (technologies_of techStack)) servers))
              (ensure_mcpServers props)))"
    by (rule enhanced_object[OF assms])
  show "fst ` set servers
          \<subseteq> fst ` set (fold add_missing
                           (discoverMCPServers rx response (technologies_of techStack)) servers)"
    by (auto simp: fold_add_missing_keys)
  show "map_of (fold add_missing
                  (discoverMCPServers rx response (technologies_of techStack)) servers) tool
          = Some v"
    if "map_of servers tool = Some v \<and> json_truthy v" for tool v
    using that by (simp add: fold_add_missing_keeps_truthy)
qed

text \<open>
  The first half of claim C9 holds: \<open>findNewTools\<close> returns the names that are keys of
  the new tool map and not of the old one, whatever the entries hold.
\<close>

lemma findNewTools_key_difference:
  assumes "tool_names oldConfig = Some oldTools" and "tool_names newConfig = Some newTools"
  shows "\<exists>added. findNewTools oldConfig newConfig = Some added
           \<and> set added = set newTools - set oldTools"
  using assms by (auto simp: findNewTools_def)

lemma copy_properties_keys: "map fst (copy_properties props) = map fst props"
  by (induction props) auto

lemma copy_elements_length: "length (copy_elements xs) = length xs"
  by (induction xs) auto

lemma map_of_copy_properties:
  "map_of (copy_properties props) k = map_option json_copy (map_of props k)"
  by (induction props) auto

lemma own_keys_copy:
  "(if json_truthy (json_copy v) then own_keys (json_copy v) else [])
     = (if json_truthy v then own_keys v else [])"
proof (cases v)
  case (JNum n)
  then show ?thesis by (cases n) (simp_all add: own_keys_def)
qed (simp_all add: own_keys_def copy_properties_keys copy_elements_length)

text \<open>The copy of an object has the tool names of the object it was made from.\<close>

lemma tool_names_copy:
  assumes "json_copy config = JObj props"
  shows "tool_names config = tool_names (JObj props)"
proof (cases config)
  case (JNum n)
  then show ?thesis using assms by (cases n) simp_all
next
  case (JObj props0)
  then have "props = copy_properties props0"
    using assms by simp
  then show ?thesis
    using JObj own_keys_copy
    by (cases "map_of props0 ''mcpServers''")
       (simp_all add: tool_names_def map_of_copy_properties)
qed (use assms in simp_all)

text \<open>
  On the input and the output of an enhancement, \<open>findNewTools\<close> returns the names
  discovery returned that are neither keys of the existing tool map nor names inherited
  from \<open>Object.prototype\<close>.
\<close>

lemma findNewTools_enhanced:
  assumes "json_copy existingConfig = JObj props"
    and "map_of (ensure_mcpServers props) ''mcpServers'' = Some (JObj servers)"
    and "generateEnhancedMCPConfig rx response techStack existingConfig = Returns newConfig"
  shows "\<exists>added. findNewTools existingConfig newConfig = Some added
           \<and> set added
               = {tool \<in> fst ` set (discoverMCPServers rx response (technologies_of techStack)).
                    tool \<notin> fst ` set servers \<and> tool \<notin> set object_prototype_names}"
proof -
  have "tool_names existingConfig = Some (map fst servers)"
    using ensure_mcpServers_names[OF assms(2)] tool_names_copy[OF assms(1)]
    by simp
  then show ?thesis
    using enhanced_object[OF assms(1,2), of rx response techStack] assms(3)
    by (auto simp: findNewTools_def tool_names_enhanced fold_add_missing_keys)
qed

text \<open>
  Claim C2 fails on the code. The user's file holds \<open>{"mcpServers": {"brave-search":
  null}}\<close> and the discovery request fails, so that discovery answers with its two
  default servers: the key \<open>brave-search\<close> is present in the existing configuration,
  and the enhancement replaces its value with the default descriptor. The test of the
  loop is the truthiness of \<open>newConfig.mcpServers[serverName]\<close>, not the presence of
  the key.
\<close>

theorem enhance_overwrites_falsy_entry:
  "generateEnhancedMCPConfig rx RequestThrows newStack
     (JObj [(''mcpServers'', JObj [(''brave-search'', JNull)])])
   = Returns
       (JObj [(''mcpServers'',
               JObj [(''brave-search'',
                      JObj [(''command'', JStr ''npx''),
                            (''args'',
                             JArr [JStr ''-y'', JStr ''@modelcontextprotocol/server-brave-search'']),
                            (''env'', JObj [(''BRAVE_API_KEY'', JStr ''YOUR_API_KEY_HERE'')])]),
                     (''sequential-thinking'',
                      JObj [(''command'', JStr ''npx''),
                            (''args'',
                             JArr [JStr ''-y'',
                                   JStr ''@modelcontextprotocol/server-sequential-thinking''])])])])"
  by (simp add: generateEnhancedMCPConfig_def ensure_mcpServers_def property_truthy_def
      discoverMCPServers_def fallback_servers_def add_missing_def descriptor_value_def
      object_prototype_names_def)

text \<open>
  Claim C9 fails on the code. The existing configuration is \<open>{"mcpServers": {}}\<close>, the
  stack is empty, and the repository listing holds one directory, named
  \<open>constructor\<close>, without a README. Discovery returns the server \<open>constructor\<close>, a
  name that is no key of the existing tool map; the enhancement does not add it, because
  the lookup \<open>newConfig.mcpServers['constructor']\<close> finds the function every object
  inherits, and \<open>findNewTools\<close> returns no name. A directory named \<open>memory\<close> in its
  place is added and returned.
\<close>

theorem findNewTools_misses_inherited_name:
  "map fst (discoverMCPServers no_regexp (Items [a_directory ''constructor''])
              (technologies_of no_stack))
     = [''constructor'']
   \<and> generateEnhancedMCPConfig no_regexp (Items [a_directory ''constructor'']) no_stack
         (JObj [(''mcpServers'', JObj [])])
     = Returns (JObj [(''mcpServers'', JObj [])])
   \<and> findNewTools (JObj [(''mcpServers'', JObj [])]) (JObj [(''mcpServers'', JObj [])])
     = Some []
   \<and> generateEnhancedMCPConfig no_regexp (Items [a_directory ''memory'']) no_stack
         (JObj [(''mcpServers'', JObj [])])
     = Returns
         (JObj [(''mcpServers'',
                 JObj [(''memory'',
                        JObj [(''command'', JStr ''npx''),
                              (''args'',
                               JArr [JStr ''-y'', JStr ''@modelcontextprotocol/server-memory''])])])])
   \<and> findNewTools (JObj [(''mcpServers'', JObj [])])
         (JObj [(''mcpServers'',
                 JObj [(''memory'',
                        JObj [(''command'', JStr ''npx''),
                              (''args'',
                               JArr [JStr ''-y'', JStr ''@modelcontextprotocol/server-memory''])])])])
     = Some [''memory'']"
  by (simp add: generateEnhancedMCPConfig_def ensure_mcpServers_def property_truthy_def
      discoverMCPServers_def process_dir_def a_directory_def no_stack_def technologies_of_def
      startsWith_dot_def server_info_def add_missing_def descriptor_value_def
      object_prototype_names_def findNewTools_def tool_names_def own_keys_def)




text \<open>
  Claim C4. When the discovery request fails, the configuration a fresh analysis builds
  from the scanned statistics, and the one planning builds from the classified
  description, hold exactly the two default tools \<open>brave-search\<close> and
  \<open>sequential-thinking\<close>.
\<close>

theorem generateMCPConfig_fallback:
  "mcpServers (generateMCPConfig rx RequestThrows (stats :: ProjectStats))
     = Some [(''brave-search'',
              \<lparr> command = ''npx'',
                args = [''-y'', ''@modelcontextprotocol/server-brave-search''],
                env = Some [(''BRAVE_API_KEY'', ''YOUR_API_KEY_HERE'')] \<rparr>),
             (''sequential-thinking'',
              \<lparr> command = ''npx'',
                args = [''-y'', ''@modelcontextprotocol/server-sequential-thinking''],
                env = None \<rparr>)]
   \<and> mcpServers (generateMCPConfig rx RequestThrows (techStack :: TechnologyStack))
     = mcpServers (generateMCPConfig rx RequestThrows stats)"
  by (simp add: generateMCPConfig_def discoverMCPServers_def fallback_servers_def
      to_descriptor_def)

section \<open>Properties of the free-text classifier\<close>

lemma rx_matchI: "k \<le> length s \<Longrightarrow> rx_after r (drop k s) \<noteq> [] \<Longrightarrow> rx_match r s"
  unfolding rx_match_def list_ex_iff by (rule bexI[where x = k]) (simp_all del: upt_Suc)

lemma rx_match_literal:
  assumes "Lit l \<in> set rs" and "toLowerCase mid = l"
  shows "rx_match (Alt rs) (pre @ mid @ post)"
proof (rule rx_matchI[where k = "length pre"])
  have len: "length l = length mid"
    using assms(2) by (auto simp: toLowerCase_def)
  have "rx_after (Lit l) (mid @ post) = [post]"
    using assms(2) len by simp
  then have "post \<in> set (rx_after (Alt rs) (mid @ post))"
    using assms(1) by force
  then have "0 < length (rx_after (Alt rs) (mid @ post))"
    by (rule length_pos_if_in_set)
  then show "rx_after (Alt rs) (drop (length pre) (pre @ mid @ post)) \<noteq> []"
    by (simp del: rx_after.simps)
qed simp

lemma JavaScript_iff:
  "''JavaScript'' \<in> set (languages (analyzeTechStack d))
     \<longleftrightarrow> rx_match javascript_pattern d \<and> \<not> rx_match typescript_guard d"
  by (simp add: analyzeTechStack_def push_if_def)

lemma TypeScript_iff:
  "''TypeScript'' \<in> set (languages (analyzeTechStack d)) \<longleftrightarrow> rx_match typescript_pattern d"
  by (simp add: analyzeTechStack_def push_if_def)

lemma Python_iff:
  "''Python'' \<in> set (languages (analyzeTechStack d)) \<longleftrightarrow> rx_match python_pattern d"
  by (simp add: analyzeTechStack_def push_if_def)

lemma Go_iff:
  "''Go'' \<in> set (languages (analyzeTechStack d)) \<longleftrightarrow> rx_match go_pattern d"
  by (simp add: analyzeTechStack_def push_if_def)

lemma guard_matches_example: "rx_match typescript_guard ''Build a TypeScript React app''"
  by (rule rx_matchI[where k = 8])
    (simp_all add: typescript_guard_def toLowerCase_def lower_char_def)

lemma typescript_matches_example: "rx_match typescript_pattern ''Build a TypeScript React app''"
  by (rule rx_matchI[where k = 8])
    (simp_all add: typescript_pattern_def toLowerCase_def lower_char_def)

lemma guard_misses_example: "\<not> rx_match typescript_guard ''Build a React app''"
  by (simp add: rx_match_def typescript_guard_def toLowerCase_def lower_char_def)

lemma javascript_matches_example: "rx_match javascript_pattern ''Build a React app''"
  by (rule rx_matchI[where k = 8])
    (simp_all add: javascript_pattern_def toLowerCase_def lower_char_def)

lemma typescript_matches_React: "rx_match typescript_pattern ''Build a React app''"
  by (rule rx_matchI[where k = 8])
    (simp_all add: typescript_pattern_def toLowerCase_def lower_char_def)

text \<open>
  Claim C5. \<open>JavaScript\<close> is among the languages exactly when the JavaScript pattern
  matches the description and the TypeScript pattern of the same test,
  \<open>/typescript|ts/i\<close>, does not. \<open>Build a TypeScript React app\<close> gives \<open>TypeScript\<close>
  and not \<open>JavaScript\<close>; \<open>Build a React app\<close> gives \<open>JavaScript\<close>. The pattern of
  the TypeScript test itself is wider and matches \<open>Build a React app\<close> too, which is
  classified as both languages.
\<close>

theorem JavaScript_unless_TypeScript:
  "(''JavaScript'' \<in> set (languages (analyzeTechStack description'))
      \<longleftrightarrow> rx_match javascript_pattern description'
          \<and> \<not> rx_match typescript_guard description')
   \<and> ''TypeScript'' \<in> set (languages (analyzeTechStack ''Build a TypeScript React app''))
   \<and> ''JavaScript'' \<notin> set (languages (analyzeTechStack ''Build a TypeScript React app''))
   \<and> ''JavaScript'' \<in> set (languages (analyzeTechStack ''Build a React app''))
   \<and> ''TypeScript'' \<in> set (languages (analyzeTechStack ''Build a React app''))"
  using guard_matches_example typescript_matches_example guard_misses_example
    javascript_matches_example typescript_matches_React
  by (simp only: JavaScript_iff TypeScript_iff simp_thms)

text \<open>
  Claim C10. A description with \<open>django\<close> in it, in any case, is classified as both
  Python and Go: the Go pattern \<open>/go|golang/i\<close> matches the \<open>go\<close> of \<open>django\<close>.
\<close>

theorem django_is_Python_and_Go:
  assumes "description' = pre @ mid @ post" and "toLowerCase mid = ''django''"
  shows "rx_match go_pattern description'
         \<and> ''Python'' \<in> set (languages (analyzeTechStack description'))
         \<and> ''Go'' \<in> set (languages (analyzeTechStack description'))"
proof -
  have py: "rx_match python_pattern description'"
    unfolding python_pattern_def assms(1)
    by (rule rx_match_literal[OF _ assms(2)]) simp
  have "map lower_char mid = ''djan'' @ ''go''"
    using assms(2) by (simp add: toLowerCase_def)
  then obtain m1 m2 where mid: "mid = m1 @ m2" and m2: "toLowerCase m2 = ''go''"
    unfolding map_eq_append_conv toLowerCase_def by metis
  have "rx_match go_pattern ((pre @ m1) @ m2 @ post)"
    unfolding go_pattern_def by (rule rx_match_literal[OF _ m2]) simp
  then have go: "rx_match go_pattern description'"
    by (simp add: assms(1) mid)
  show ?thesis using py go by (simp add: Python_iff Go_iff)
qed

theorem django_is_Python_and_Go_witness:
  "''A Django blog'' = ''A '' @ ''Django'' @ '' blog''
   \<and> toLowerCase ''Django'' = ''django''
   \<and> ''Python'' \<in> set (languages (analyzeTechStack ''A Django blog''))
   \<and> ''Go'' \<in> set (languages (analyzeTechStack ''A Django blog''))"
  using django_is_Python_and_Go[of "''A Django blog''" "''A ''" "''Django''" "'' blog''"]
  by (simp add: toLowerCase_def lower_char_def)

section \<open>Properties of the directory walks\<close>

lemma strip_bounded:
  "scanProjectDirectory p dir d c s = scanProjectDirectory p (strip_ignored dir) d c s"
  "scan_entries p es d c s = scan_entries p (strip_entries es) d c s"
  by (induction p dir d c s and p es d c s rule: scanProjectDirectory_scan_entries.induct)
    (auto split: prod.splits option.splits)

lemma strip_analyzer:
  "scanDir parse p dir s = scanDir parse p (strip_ignored dir) s"
  "scanDir_entries parse p es s = scanDir_entries parse p (strip_entries es) s"
  by (induction parse p dir s and parse p es s rule: scanDir_scanDir_entries.induct) auto

lemma distinct_add_unique: "distinct xs \<Longrightarrow> distinct (add_unique x xs)"
  by (simp add: add_unique_def)

lemma distinct_fold_add_unique: "distinct xs \<Longrightarrow> distinct (fold add_unique ys xs)"
  by (induction ys arbitrary: xs) (simp_all add: distinct_add_unique)

lemma distinct_detect_language: "distinct langs \<Longrightarrow> distinct (detect_language ext langs)"
  by (simp add: detect_language_def)

lemma distinct_push_framework: "distinct fws \<Longrightarrow> distinct (push_framework present e fws)"
  by (cases e) (simp add: push_framework_def)

lemma distinct_fold_push_framework:
  "distinct fws \<Longrightarrow> distinct (fold (push_framework present) es fws)"
  by (induction es arbitrary: fws) (simp_all add: distinct_push_framework)

lemma distinct_fold_push_req:
  "distinct deps \<Longrightarrow>
   distinct (fold (\<lambda>req deps. if req \<noteq> [] \<and> req \<notin> set deps then deps @ [req] else deps) reqs deps)"
  by (induction reqs arbitrary: deps) simp_all

lemma no_duplicates_scan_package_json:
  "no_duplicates st \<Longrightarrow> no_duplicates (scan_package_json deps st)"
  unfolding no_duplicates_def scan_package_json_def
  by (auto intro!: distinct_fold_add_unique distinct_fold_push_framework
      simp del: fold_simps fold.simps)

lemma no_duplicates_scan_requirements:
  "no_duplicates st \<Longrightarrow> no_duplicates (scan_requirements content st)"
  unfolding no_duplicates_def scan_requirements_def Let_def
  by (auto intro!: distinct_fold_push_req distinct_fold_push_framework
      simp del: fold_simps fold.simps)

lemma no_duplicates_scan_build_file:
  "no_duplicates st \<Longrightarrow> no_duplicates (scan_build_file n content st)"
  unfolding no_duplicates_def scan_build_file_def Let_def
  by (simp add: distinct_add_unique split: option.splits)

lemma no_duplicates_scan_gemfile:
  "no_duplicates st \<Longrightarrow> no_duplicates (scan_gemfile content st)"
  unfolding no_duplicates_def scan_gemfile_def
  by (simp add: distinct_add_unique split: option.splits)

lemma no_duplicates_detect:
  "no_duplicates st \<Longrightarrow>
   no_duplicates ((count_extension ext st)\<lparr> languages := detect_language ext (languages st) \<rparr>)"
  by (simp add: no_duplicates_def count_extension_def distinct_detect_language)

lemma no_duplicates_features:
  "no_duplicates (st\<lparr> features := fs \<rparr>) = no_duplicates st"
  by (simp add: no_duplicates_def)

lemma no_duplicates_scan_file:
  assumes "no_duplicates st"
  shows "no_duplicates (scan_file parse n content st)"
proof -
  define st1 where
    "st1 = (if toLowerCase (extname n) \<noteq> []
            then (count_extension (toLowerCase (extname n)) st)
                   \<lparr> languages := detect_language (toLowerCase (extname n)) (languages st) \<rparr>
            else st)"
  have st1: "no_duplicates st1"
    using assms by (simp add: st1_def no_duplicates_detect)
  have "scan_file parse n content st =
      (if n = ''package.json'' then
           (case content of
              None \<Rightarrow> st1
            | Some c \<Rightarrow>
                (case parse c of
                   None \<Rightarrow> st1
                 | Some (deps, devDeps) \<Rightarrow> scan_package_json (spread deps devDeps) st1))
         else if n = ''requirements.txt'' then
           (case content of None \<Rightarrow> st1 | Some c \<Rightarrow> scan_requirements c st1)
         else if n = ''build.gradle'' \<or> n = ''pom.xml'' then scan_build_file n content st1
         else if n = ''Gemfile'' then scan_gemfile content st1
         else if n = ''Dockerfile'' \<or> n = ''docker-compose.yml''
                 \<or> n = ''docker-compose.yaml''
           then st1\<lparr> features := features st1 @ [''Containerization''] \<rparr>
         else if n = ''.github/workflows'' \<or> n = ''Jenkinsfile''
                 \<or> n = ''.gitlab-ci.yml''
           then st1\<lparr> features := features st1 @ [''CI/CD''] \<rparr>
         else st1)"
    unfolding scan_file_def st1_def Let_def by (rule refl)
  then show ?thesis
    using st1
    by (simp add: no_duplicates_scan_package_json no_duplicates_scan_requirements
        no_duplicates_scan_build_file no_duplicates_scan_gemfile no_duplicates_features
        split: option.splits)
qed

lemma no_duplicates_walk:
  "no_duplicates (the_stats s) \<Longrightarrow> no_duplicates (the_stats (scanDir parse p dir s))"
  "no_duplicates (the_stats s) \<Longrightarrow> no_duplicates (the_stats (scanDir_entries parse p es s))"
  by (induction parse p dir s and parse p es s rule: scanDir_scanDir_entries.induct)
    (simp_all add: no_duplicates_scan_file)

lemma stops_at_once:
  "currentDepth \<ge> MAX_SCAN_DEPTH \<or> fileCount \<ge> MAX_FILES \<Longrightarrow>
   scanProjectDirectory p dir currentDepth fileCount s = (None, s)"
  by (cases dir) auto

lemma cut_bounded:
  "scanProjectDirectory p dir d c s = scanProjectDirectory p (cut_at (MAX_SCAN_DEPTH - d) dir) d c s"
  "d < MAX_SCAN_DEPTH \<Longrightarrow>
   scan_entries p es d c s = scan_entries p (cut_entries (MAX_SCAN_DEPTH - Suc d) es) d c s"
proof (induction p dir d c s and p es d c s rule: scanProjectDirectory_scan_entries.induct)
  case (1 projectPath code currentDepth fileCount s)
  then show ?case
    by (cases "MAX_SCAN_DEPTH - currentDepth") auto
next
  case (2 projectPath entries currentDepth fileCount s)
  show ?case
  proof (cases "currentDepth \<ge> MAX_SCAN_DEPTH \<or> fileCount \<ge> MAX_FILES")
    case True
    then show ?thesis by (simp add: stops_at_once)
  next
    case False
    then have "MAX_SCAN_DEPTH - currentDepth = Suc (MAX_SCAN_DEPTH - Suc currentDepth)" by arith
    then show ?thesis using False 2 by simp
  qed
next
  case (4 projectPath name' sub entries currentDepth fileCount s)
  have sub: "scanProjectDirectory (path_join projectPath name') sub (currentDepth + 1) fileCount s
      = scanProjectDirectory (path_join projectPath name') (cut_at (MAX_SCAN_DEPTH - Suc currentDepth) sub)
          (currentDepth + 1) fileCount s" if "name' \<notin> set ignored_directories"
    using 4(2)[OF that] by simp
  show ?case using 4 sub by (auto split: prod.splits option.splits)
qed auto

lemma extname_js_name: "toLowerCase (extname (js_name i)) = ''.js''"
proof -
  have tw: "takeWhile (\<lambda>c. c \<noteq> CHR ''.'') (rev (js_name i)) = ''sj''"
    by (simp add: js_name_def)
  show ?thesis
    unfolding extname_def Let_def tw
    by (simp add: js_name_def toLowerCase_def lower_char_def)
qed

lemma scan_js_files_gen:
  "scan_entries p (map (\<lambda>i. File (js_name i) None) is) d c s
     = (None, s\<lparr> the_stats := (count_extension ''.js'' ^^ length is) (the_stats s) \<rparr>)"
proof (induction "is" arbitrary: c s)
  case Nil
  then show ?case by simp
next
  case (Cons i "is")
  show ?case
    by (simp add: extname_js_name Cons.IH funpow_swap1 Let_def)
qed

lemma scan_js_files:
  "scan_entries p (js_files n) d c s
     = (None, s\<lparr> the_stats := (count_extension ''.js'' ^^ n) (the_stats s) \<rparr>)"
  unfolding js_files_def by (simp add: scan_js_files_gen)

lemma on_error_not_EACCES: "fst (on_error p r) \<noteq> Some ''EACCES''"
  by (cases r) (auto simp: on_error_def split: option.splits)

lemma never_throws_EACCES: "fst (scanProjectDirectory p dir d c s) \<noteq> Some ''EACCES''"
  by (cases dir) (simp_all add: on_error_not_EACCES)

lemma on_error_rethrows: "code \<noteq> ''EACCES'' \<Longrightarrow> on_error p (Some code, s) = (Some code, s)"
  by (simp add: on_error_def)

lemma count_files_simps:
  "count_files [] = 0"
  "count_files (File n content # es) = Suc (count_files es)"
  "count_files (Dir n sub # es) = count_files es"
  "count_files (Other n # es) = count_files es"
  by (simp_all add: count_files_def)

lemma scan_entries_append:
  "scan_entries p (xs @ ys) d c s =
     (case scan_entries p xs d c s of
        (Some code, s') \<Rightarrow> (Some code, s')
      | (None, s') \<Rightarrow> scan_entries p ys d (c + count_files xs) s')"
proof (induction xs arbitrary: c s)
  case Nil
  then show ?case by (simp add: count_files_simps)
next
  case (Cons x xs)
  show ?case
  proof (cases x)
    case (File n content)
    show ?thesis unfolding File using Cons.IH
      by (auto simp: count_files_simps Let_def split: prod.splits option.splits)
  next
    case (Dir n sub)
    show ?thesis unfolding Dir using Cons.IH
      by (auto simp: count_files_simps split: prod.splits option.splits)
  next
    case (Other n)
    show ?thesis unfolding Other using Cons.IH
      by (auto simp: count_files_simps split: prod.splits option.splits)
  qed
qed

lemma rethrown:
  assumes "currentDepth < MAX_SCAN_DEPTH" and "fileCount < MAX_FILES"
    and "name' \<notin> set ignored_directories"
    and "scan_entries p earlier currentDepth fileCount s = (None, s1)"
    and "scanProjectDirectory (path_join p name') sub (currentDepth + 1)
           (fileCount + count_files earlier) s1 = (Some code, s2)"
  shows "scanProjectDirectory p (Lists (earlier @ Dir name' sub # later)) currentDepth fileCount s
           = (Some code, s2)"
proof -
  have "code \<noteq> ''EACCES''"
    using never_throws_EACCES[of "path_join p name'" sub "currentDepth + 1"
        "fileCount + count_files earlier" s1] assms(5) by auto
  moreover have "scan_entries p (earlier @ Dir name' sub # later) currentDepth fileCount s
                   = (Some code, s2)"
    using assms(3,4,5) by (simp add: scan_entries_append)
  ultimately show ?thesis
    using assms(1,2) by (simp add: on_error_rethrows)
qed

lemma scanDir_nest:
  "the_stats (scanDir parse p (nest k (Lists [File n content])) s)
     = scan_file parse n content (the_stats s)"
  by (induction k arbitrary: p) (simp_all add: ignored_directories_def)

lemma strip_entries_append:
  "strip_entries (xs @ ys) = strip_entries xs @ strip_entries ys"
proof (induction xs)
  case Nil
  then show ?case by simp
next
  case (Cons x xs)
  then show ?case by (cases x) simp_all
qed

lemma strip_scanProject: "scanProject parse p dir = scanProject parse p (strip_ignored dir)"
  unfolding scanProject_def using strip_analyzer(1)[of parse p dir] by simp

lemma count_js_files: "count_files (js_files n) = n"
  by (simp add: count_files_def js_files_def filter_map comp_def)

text \<open>
  What \<open>scanProjectDirectory\<close> of utils/fs.ts does bound. A call whose depth has reached
  \<open>MAX_SCAN_DEPTH\<close>, or whose \<open>fileCount\<close> argument has reached \<open>MAX_FILES\<close>, returns
  at once and changes nothing; so the walk of a tree is the walk of the tree cut at depth
  10, and nothing in a directory at depth 10 or deeper is counted.
\<close>

lemma depth_bound:
  "scanProjectDirectory p dir currentDepth fileCount s
     = scanProjectDirectory p (cut_at (MAX_SCAN_DEPTH - currentDepth) dir) currentDepth fileCount s"
  by (rule cut_bounded(1))

lemma deep_file_not_counted:
  "scanProjectDirectory ''/p'' (nest 10 (Lists [File ''deep.py'' None])) 0 0 start = (None, start)"
  by (simp add: eval_nat_numeral MAX_SCAN_DEPTH_def MAX_FILES_def ignored_directories_def
      on_error_def)

text \<open>
  The walk of project-analyzer.ts, which the entry points run, has neither bound: it
  counts a file under any number \<open>k\<close> of nested directories.
\<close>

lemma scanProject_unbounded:
  "fileTypes (the_stats (scanProject parse p (nest k (Lists [File ''deep.py'' None]))))
     = [(''.py'', 1)]"
  by (simp add: scanProject_def Let_def scanDir_nest scan_file_def extname_def toLowerCase_def
      lower_char_def count_extension_def empty_stats_def)

lemma count_extension_again:
  "(count_extension ext ^^ n) (st\<lparr> fileTypes := [(ext, k)] \<rparr>)
     = st\<lparr> fileTypes := [(ext, k + n)] \<rparr>"
  by (induction n arbitrary: k) (simp_all add: count_extension_def funpow_swap1)

lemma count_extension_first:
  "(count_extension ext ^^ Suc n) (st\<lparr> fileTypes := [] \<rparr>)
     = st\<lparr> fileTypes := [(ext, Suc n)] \<rparr>"
  using count_extension_again[where ext = ext and n = n and st = st and k = 1]
  by (simp add: funpow_swap1 count_extension_def)

text \<open>
  Claim C1. The claim does not hold of the code: \<open>fileCount\<close> is passed by value, so a
  directory is entered with the number of files its ancestors had listed before it, not
  with the number of files seen. The bounded walk of a root with three directories of
  10000 files each enters each of them with \<open>fileCount = 0\<close> and counts all 30000
  files, three times \<open>MAX_FILES\<close>.
\<close>

theorem file_cap_not_enforced:
  "MAX_FILES = 10000
   \<and> count_files (js_files 10000) = 10000
   \<and> scanProjectDirectory ''/p''
        (Lists [Dir ''a'' (Lists (js_files 10000)), Dir ''b'' (Lists (js_files 10000)),
                Dir ''c'' (Lists (js_files 10000))]) 0 0 start
     = (None, start\<lparr> the_stats := empty_stats\<lparr> fileTypes := [(''.js'', 30000)] \<rparr> \<rparr>)"
proof (intro conjI)
  show "MAX_FILES = 10000"
    by (simp add: MAX_FILES_def)
  show "count_files (js_files 10000) = 10000"
    by (rule count_js_files)
  have a: "(count_extension ''.js'' ^^ 10000) empty_stats
             = empty_stats\<lparr> fileTypes := [(''.js'', 10000)] \<rparr>"
    using count_extension_first[where ext = "''.js''" and n = 9999 and st = empty_stats]
    by (simp add: empty_stats_def)
  show "scanProjectDirectory ''/p''
          (Lists [Dir ''a'' (Lists (js_files 10000)), Dir ''b'' (Lists (js_files 10000)),
                  Dir ''c'' (Lists (js_files 10000))]) 0 0 start
        = (None, start\<lparr> the_stats := empty_stats\<lparr> fileTypes := [(''.js'', 30000)] \<rparr> \<rparr>)"
    by (simp add: scan_js_files MAX_SCAN_DEPTH_def MAX_FILES_def ignored_directories_def
        on_error_def start_def a count_extension_again del: funpow.simps)
qed

text \<open>
  Claim C6. Both walks skip a directory entry whose name is one of \<open>node_modules\<close>,
  \<open>.git\<close>, \<open>venv\<close>, \<open>__pycache__\<close>, \<open>.next\<close>, \<open>dist\<close> and \<open>build\<close>: whatever such
  a directory holds, the walk is the walk of the listing without it, and at every level
  the walk of a tree is the walk of the tree with its ignored directories removed.
\<close>

theorem ignored_directories_skipped:
  "(name' \<in> set ignored_directories \<longrightarrow>
      scanProjectDirectory p (Lists (earlier @ Dir name' sub # later)) currentDepth fileCount s
        = scanProjectDirectory p (Lists (earlier @ later)) currentDepth fileCount s
      \<and> scanProject parse p (Lists (earlier @ Dir name' sub # later))
        = scanProject parse p (Lists (earlier @ later)))
   \<and> scanProjectDirectory p dir currentDepth fileCount s
       = scanProjectDirectory p (strip_ignored dir) currentDepth fileCount s
   \<and> scanProject parse p dir = scanProject parse p (strip_ignored dir)
   \<and> set ignored_directories
       = {''node_modules'', ''.git'', ''venv'', ''__pycache__'', ''.next'', ''dist'', ''build''}"
proof (intro conjI impI)
  assume ignored: "name' \<in> set ignored_directories"
  have same: "strip_ignored (Lists (earlier @ Dir name' sub # later))
                = strip_ignored (Lists (earlier @ later))"
    using ignored by (simp add: strip_entries_append)
  show "scanProjectDirectory p (Lists (earlier @ Dir name' sub # later)) currentDepth fileCount s
          = scanProjectDirectory p (Lists (earlier @ later)) currentDepth fileCount s"
    using strip_bounded(1)[of p "Lists (earlier @ Dir name' sub # later)" currentDepth fileCount s]
      strip_bounded(1)[of p "Lists (earlier @ later)" currentDepth fileCount s] same
    by simp
  show "scanProject parse p (Lists (earlier @ Dir name' sub # later))
          = scanProject parse p (Lists (earlier @ later))"
    using strip_scanProject[of parse p "Lists (earlier @ Dir name' sub # later)"]
      strip_scanProject[of parse p "Lists (earlier @ later)"] same
    by simp
next
  show "scanProjectDirectory p dir currentDepth fileCount s
          = scanProjectDirectory p (strip_ignored dir) currentDepth fileCount s"
    by (rule strip_bounded(1))
  show "scanProject parse p dir = scanProject parse p (strip_ignored dir)"
    by (rule strip_scanProject)
  show "set ignored_directories
          = {''node_modules'', ''.git'', ''venv'', ''__pycache__'', ''.next'', ''dist'', ''build''}"
    by (simp add: ignored_directories_def)
qed

text \<open>
  A \<open>node_modules\<close> directory with two Python files beside \<open>index.js\<close>: no Python is
  detected and no \<open>.py\<close> file is counted, by either walk.
\<close>

theorem ignored_directories_skipped_witness:
  "''node_modules'' \<in> set ignored_directories
   \<and> the_stats (scanProject no_json ''/p''
        (Lists [Dir ''node_modules'' (Lists [File ''setup.py'' None, File ''util.py'' None]),
                File ''index.js'' None]))
     = \<lparr> languages = [''JavaScript''], frameworks = [], features = [],
         fileTypes = [(''.js'', 1)], dependencies = [] \<rparr>
   \<and> scanProjectDirectory ''/p''
        (Lists [Dir ''node_modules'' (Lists [File ''setup.py'' None, File ''util.py'' None]),
                File ''index.js'' None]) 0 0 start
     = (None, start\<lparr> the_stats := empty_stats\<lparr> fileTypes := [(''.js'', 1)] \<rparr> \<rparr>)"
  using ignored_directories_skipped
    [of "''node_modules''" "''/p''" "[]"
        "Lists [File ''setup.py'' None, File ''util.py'' None]" "[File ''index.js'' None]"
        0 0 start no_json]
  by (simp add: ignored_directories_def scanProject_def Let_def scan_file_def extname_def
      toLowerCase_def lower_char_def count_extension_def detect_language_def empty_stats_def
      MAX_SCAN_DEPTH_def MAX_FILES_def on_error_def start_def)

text \<open>
  Claim C7, as the code has it. In \<open>scanProjectDirectory\<close> of utils/fs.ts a directory
  whose read fails with \<open>EACCES\<close> gets a warning and counts as empty, and a read that
  fails with any other code is thrown on: the call for the directory throws it, and so
  does every enclosing call, whatever was scanned before. The walk the entry points run
  is \<open>scanDir\<close> of project-analyzer.ts, which catches every read error, writes a line
  with \<open>console.error\<close> and goes on; so \<open>analyzeProject\<close> reports the statistics
  whenever \<open>fs.access\<close> and the writes succeed, and answers with an error text for the
  exceptions of its own \<open>try\<close> block.
\<close>

theorem directory_read_errors:
  "(currentDepth < MAX_SCAN_DEPTH \<and> fileCount < MAX_FILES \<longrightarrow>
      scanProjectDirectory p (Fails ''EACCES'') currentDepth fileCount s
        = (None, s\<lparr> the_console := the_console s @ [''Permission denied accessing '' @ p] \<rparr>))
   \<and> (currentDepth < MAX_SCAN_DEPTH \<and> fileCount < MAX_FILES \<and> code \<noteq> ''EACCES'' \<longrightarrow>
      scanProjectDirectory p (Fails code) currentDepth fileCount s = (Some code, s))
   \<and> (currentDepth < MAX_SCAN_DEPTH \<and> fileCount < MAX_FILES
        \<and> name' \<notin> set ignored_directories
        \<and> scan_entries p earlier currentDepth fileCount s = (None, s1)
        \<and> scanProjectDirectory (path_join p name') sub (currentDepth + 1)
             (fileCount + count_files earlier) s1 = (Some code, s2) \<longrightarrow>
      scanProjectDirectory p (Lists (earlier @ Dir name' sub # later)) currentDepth fileCount s
        = (Some code, s2))
   \<and> scanDir parse p (Fails code) s
       = s\<lparr> the_console := the_console s @ [''Error scanning directory '' @ p @ '': '' @ code] \<rparr>
   \<and> (access_error world = None \<and> write_error world = None \<longrightarrow>
      analyzeProject parse rx p world
        = Report (the_stats (scanProject parse p (project_tree world)))
            (generateMCPConfig rx (discovery_response world)
               (the_stats (scanProject parse p (project_tree world)))))
   \<and> (access_error world = Some message \<longrightarrow>
      analyzeProject parse rx p world = ErrorText (''Error analyzing project: '' @ message))"
proof (intro conjI impI)
  show "scanProjectDirectory p (Fails ''EACCES'') currentDepth fileCount s
          = (None, s\<lparr> the_console := the_console s @ [''Permission denied accessing '' @ p] \<rparr>)"
    if "currentDepth < MAX_SCAN_DEPTH \<and> fileCount < MAX_FILES"
    using that by (simp add: on_error_def)
  show "scanProjectDirectory p (Fails code) currentDepth fileCount s = (Some code, s)"
    if "currentDepth < MAX_SCAN_DEPTH \<and> fileCount < MAX_FILES \<and> code \<noteq> ''EACCES''"
    using that by (simp add: on_error_def)
  show "scanProjectDirectory p (Lists (earlier @ Dir name' sub # later)) currentDepth fileCount s
          = (Some code, s2)"
    if "currentDepth < MAX_SCAN_DEPTH \<and> fileCount < MAX_FILES
        \<and> name' \<notin> set ignored_directories
        \<and> scan_entries p earlier currentDepth fileCount s = (None, s1)
        \<and> scanProjectDirectory (path_join p name') sub (currentDepth + 1)
             (fileCount + count_files earlier) s1 = (Some code, s2)"
    using that rethrown[of currentDepth fileCount name' p earlier s s1 sub code s2 later]
    by blast
  show "scanDir parse p (Fails code) s
          = s\<lparr> the_console := the_console s @ [''Error scanning directory '' @ p @ '': '' @ code] \<rparr>"
    by simp
  show "analyzeProject parse rx p world
          = Report (the_stats (scanProject parse p (project_tree world)))
              (generateMCPConfig rx (discovery_response world)
                 (the_stats (scanProject parse p (project_tree world))))"
    if "access_error world = None \<and> write_error world = None"
    using that by (simp add: analyzeProject_def Let_def)
  show "analyzeProject parse rx p world = ErrorText (''Error analyzing project: '' @ message)"
    if "access_error world = Some message"
    using that by (simp add: analyzeProject_def)
qed

text \<open>
  The bounded walk of a root with a file, a directory that may not be read, a directory
  that has vanished and another file: the first directory gets a warning, the error of
  the second is thrown by the walk of the root, and the last file is not reached.
\<close>

theorem directory_read_errors_witness:
  "scanProjectDirectory ''/p''
     (Lists [File ''a.js'' None, Dir ''locked'' (Fails ''EACCES''), Dir ''gone'' (Fails ''ENOENT''),
             File ''b.js'' None]) 0 0 start
   = (Some ''ENOENT'',
      \<lparr> the_stats = empty_stats\<lparr> fileTypes := [(''.js'', 1)] \<rparr>,
        the_console = [''Permission denied accessing /p/locked''] \<rparr>)
   \<and> analyzeProject no_json no_regexp ''/p''
      \<lparr> access_error = Some ''ENOENT: no such file or directory'', project_tree = Lists [],
        discovery_response = NotArray, write_error = None \<rparr>
     = ErrorText ''Error analyzing project: ENOENT: no such file or directory''"
  using directory_read_errors
    [where currentDepth = 0 and fileCount = 0 and p = "''/p''" and s = start
       and code = "''ENOENT''" and name' = "''gone''" and sub = "Fails ''ENOENT''"
       and earlier = "[File ''a.js'' None, Dir ''locked'' (Fails ''EACCES'')]"
       and later = "[File ''b.js'' None]"
       and ?s1.0 = "\<lparr> the_stats = empty_stats\<lparr> fileTypes := [(''.js'', 1)] \<rparr>,
                     the_console = [''Permission denied accessing /p/locked''] \<rparr>"
       and ?s2.0 = "\<lparr> the_stats = empty_stats\<lparr> fileTypes := [(''.js'', 1)] \<rparr>,
                     the_console = [''Permission denied accessing /p/locked''] \<rparr>"
       and parse = no_json and rx = no_regexp
       and message = "''ENOENT: no such file or directory''"
       and world = "\<lparr> access_error = Some ''ENOENT: no such file or directory'',
                       project_tree = Lists [], discovery_response = NotArray,
                       write_error = None \<rparr>"]
  by (simp add: MAX_SCAN_DEPTH_def MAX_FILES_def ignored_directories_def on_error_def start_def
      path_join_def extname_def toLowerCase_def lower_char_def count_extension_def Let_def
      empty_stats_def count_files_simps)

text \<open>
  The claim as stated fails: a directory of the project whose read fails with \<open>EIO\<close>,
  which is no permission failure, does not make \<open>analyzeProject\<close> answer with an error
  text. The error is written to the console and the report is that of the rest of the
  tree.
\<close>

theorem directory_read_errors_counterexample:
  "analyzeProject no_json no_regexp ''/p''
     \<lparr> access_error = None,
       project_tree = Lists [File ''a.py'' None, Dir ''src'' (Fails ''EIO'')],
       discovery_response = NotArray, write_error = None \<rparr>
   = Report \<lparr> languages = [''Python''], frameworks = [], features = [],
              fileTypes = [(''.py'', 1)], dependencies = [] \<rparr>
       \<lparr> mcpServers = Some [] \<rparr>
   \<and> the_console (scanProject no_json ''/p''
        (Lists [File ''a.py'' None, Dir ''src'' (Fails ''EIO'')]))
     = [''Error scanning directory /p/src: EIO'']"
  by (simp add: analyzeProject_def scanProject_def Let_def ignored_directories_def scan_file_def
      extname_def toLowerCase_def lower_char_def count_extension_def detect_language_def
      empty_stats_def generateMCPConfig_def discoverMCPServers_def path_join_def)

lemma distinct_detectLanguageFromExtension:
  "distinct (languages st) \<Longrightarrow> distinct (languages (detectLanguageFromExtension ext st))"
  by (simp add: detectLanguageFromExtension_def split: option.splits)

text \<open>
  Claim C8. The statistics \<open>scanProject\<close> returns hold no language, framework,
  dependency or feature twice, whatever the tree and whatever the manifests parse to;
  and \<open>detectLanguageFromExtension\<close> of utils/detectors.ts adds no language twice.
  During the walk the features can hold a value twice: a \<open>Dockerfile\<close> beside a
  \<open>docker-compose.yml\<close> pushes \<open>Containerization\<close> two times, and the scan returns it
  once.
\<close>

theorem scanProject_no_duplicates:
  "distinct (languages (the_stats (scanProject parse p root)))
   \<and> distinct (frameworks (the_stats (scanProject parse p root)))
   \<and> distinct (dependencies (the_stats (scanProject parse p root)))
   \<and> distinct (features (the_stats (scanProject parse p root)))
   \<and> (distinct (languages st) \<longrightarrow> distinct (languages (detectLanguageFromExtension ext st)))
   \<and> features (the_stats (scanDir no_json ''/p''
        (Lists [File ''Dockerfile'' None, File ''docker-compose.yml'' None]) start))
     = [''Containerization'', ''Containerization'']
   \<and> features (the_stats (scanProject no_json ''/p''
        (Lists [File ''Dockerfile'' None, File ''docker-compose.yml'' None])))
     = [''Containerization'']"
proof -
  have "no_duplicates
          (the_stats (scanDir parse p root \<lparr> the_stats = empty_stats, the_console = [] \<rparr>))"
    by (rule no_duplicates_walk) (simp add: no_duplicates_def empty_stats_def)
  then have general:
    "distinct (languages (the_stats (scanProject parse p root)))
     \<and> distinct (frameworks (the_stats (scanProject parse p root)))
     \<and> distinct (dependencies (the_stats (scanProject parse p root)))
     \<and> distinct (features (the_stats (scanProject parse p root)))"
    by (simp add: scanProject_def Let_def no_duplicates_def distinct_fold_add_unique)
  have during:
    "features (the_stats (scanDir no_json ''/p''
        (Lists [File ''Dockerfile'' None, File ''docker-compose.yml'' None]) start))
     = [''Containerization'', ''Containerization'']"
    by (simp add: scan_file_def extname_def toLowerCase_def lower_char_def count_extension_def
        detect_language_def empty_stats_def start_def Let_def)
  have after:
    "features (the_stats (scanProject no_json ''/p''
        (Lists [File ''Dockerfile'' None, File ''docker-compose.yml'' None])))
     = [''Containerization'']"
    by (simp add: scanProject_def scan_file_def extname_def toLowerCase_def lower_char_def
        count_extension_def detect_language_def empty_stats_def Let_def add_unique_def)
  show ?thesis
    using general during after distinct_detectLanguageFromExtension[of st ext] by blast
qed

text \<open>
  Detecting \<open>.js\<close> on statistics that already hold \<open>JavaScript\<close> leaves the one entry.
\<close>

theorem scanProject_no_duplicates_witness:
  "distinct (languages (detectLanguageFromExtension ''.js'' empty_stats))
   \<and> languages (detectLanguageFromExtension ''.js''
        (detectLanguageFromExtension ''.js'' empty_stats)) = [''JavaScript'']
   \<and> distinct (languages (detectLanguageFromExtension ''.js''
        (detectLanguageFromExtension ''.js'' empty_stats)))"
  using scanProject_no_duplicates
    [where st = "detectLanguageFromExtension ''.js'' empty_stats" and ext = "''.js''"]
  by (simp add: detectLanguageFromExtension_def languageMap_def empty_stats_def)

end
